theory Spec2Isabelle
  imports Complex_Main
begin

section \<open>Exceptions and byte strings\<close>

text \<open>
  A \<^verbatim>\<open>std::string\<close> is a sequence of bytes: a HOL \<^typ>\<open>string\<close>. The only
  exception the code under study can raise is \<^verbatim>\<open>std::regex_error\<close>, thrown by the
  constructor of \<^verbatim>\<open>std::regex\<close> on an ill-formed pattern; nothing in the
  repository catches it, so it leaves every function on the call path. A function that
  can throw returns \<open>exn + 'a\<close>, with \<open>Inl\<close> for the exception. The value
  \<open>beyond_model\<close> is not a C++ exception: it marks a pattern that uses regular-expression
  syntax left out of the fragment modelled below (groups, lazy quantifiers,
  back-references, POSIX classes). No pattern of the repository produces it.
\<close>

datatype exn = regex_error | beyond_model

definition exn_bind :: "exn + 'a \<Rightarrow> ('a \<Rightarrow> exn + 'b) \<Rightarrow> exn + 'b" where
  "exn_bind r f = (case r of Inl e \<Rightarrow> Inl e | Inr x \<Rightarrow> f x)"

definition exn_map :: "('a \<Rightarrow> 'b) \<Rightarrow> exn + 'a \<Rightarrow> exn + 'b" where
  "exn_map f r = (case r of Inl e \<Rightarrow> Inl e | Inr x \<Rightarrow> Inr (f x))"

definition code :: "char \<Rightarrow> nat" where
  "code c = of_char c"

text \<open>
  A HOL string literal cannot hold a backslash. \<open>raw\<close> writes the patterns of the source
  with \<^verbatim>\<open>/\<close> standing for the backslash (no pattern of the source contains a
  slash): the C++ literal \<^verbatim>\<open>"\\frac{"\<close>, six characters beginning with one
  backslash, is \<open>raw ''/frac{''\<close>, and the raw literal \<^verbatim>\<open>R"(\s{2,})"\<close> is
  \<open>raw ''/s{2,}''\<close>.
\<close>

definition raw :: "string \<Rightarrow> string" where
  "raw s = map (\<lambda>c. if c = CHR ''/'' then CHR 0x5C else c) s"

text \<open>The character classes of the classic "C" locale.\<close>

definition isspace :: "char \<Rightarrow> bool" where
  "isspace c = (code c = 32 \<or> (9 \<le> code c \<and> code c \<le> 13))"

definition isdigit :: "char \<Rightarrow> bool" where
  "isdigit c = (48 \<le> code c \<and> code c \<le> 57)"

definition isalpha :: "char \<Rightarrow> bool" where
  "isalpha c = ((65 \<le> code c \<and> code c \<le> 90) \<or> (97 \<le> code c \<and> code c \<le> 122))"

definition isword :: "char \<Rightarrow> bool" where
  "isword c = (isalpha c \<or> isdigit c \<or> c = CHR ''_'')"

section \<open>The regular expressions of the standard library\<close>

text \<open>
  Both classes clean text with \<^verbatim>\<open>std::regex_replace(s, std::regex(p), fmt)\<close>.
  \<^verbatim>\<open>std::regex(p)\<close> parses \<open>p\<close> in the ECMAScript grammar and throws
  \<^verbatim>\<open>std::regex_error\<close> when \<open>p\<close> is not a regular expression. The model has
  the fragment of that grammar the patterns of the repository are written in:
  alternation, character classes with ranges, the escapes, the assertions
  \<^verbatim>\<open>^ $ \b \B\<close> and the greedy quantifiers \<^verbatim>\<open>* + ? {n} {n,} {n,m}\<close>.

  On three points the implementations of the library read the patterns of the repository
  differently. The model takes the permissive reading on each, so that it rejects a
  pattern of the repository only where every implementation does:
  \<^item> a backslash before a letter that is no escape (\<^verbatim>\<open>\a\<close>, \<^verbatim>\<open>\e\<close>,
    \<^verbatim>\<open>\p\<close>, ...) stands for that letter, as in libstdc++; the ECMAScript
    grammar, libc++ and the Microsoft library reject the pattern;
  \<^item> \<^verbatim>\<open>\uHHHH\<close> in a regular expression over \<^verbatim>\<open>char\<close> keeps the low byte
    of the code unit, as in libstdc++ and libc++; the Microsoft library rejects a value
    above 255;
  \<^item> a closing brace or bracket that closes nothing is an ordinary character, as in
    libstdc++; the grammar and libc++ reject it.
  An opening brace that does not begin a quantifier \<^verbatim>\<open>{n}\<close>, \<^verbatim>\<open>{n,}\<close> or
  \<^verbatim>\<open>{n,m}\<close> after an atom is an error in the grammar and in every implementation.
\<close>

datatype cls = Digit | Space | Word

text \<open>
  Lexing resolves the escapes: \<open>Lit n\<close> is an escaped character with code \<open>n\<close>,
  \<open>Raw c\<close> an unescaped character of the pattern.
\<close>

datatype tok = Lit nat | Raw char | ClassEsc bool cls | BoundaryEsc bool

definition hexval :: "char \<Rightarrow> nat option" where
  "hexval c =
     (if isdigit c then Some (code c - 48)
      else if 97 \<le> code c \<and> code c \<le> 102 then Some (code c - 87)
      else if 65 \<le> code c \<and> code c \<le> 70 then Some (code c - 55)
      else None)"

fun hexnum :: "nat \<Rightarrow> string \<Rightarrow> nat option" where
  "hexnum acc [] = Some acc"
| "hexnum acc (c # cs) =
     (case hexval c of None \<Rightarrow> None | Some v \<Rightarrow> hexnum (16 * acc + v) cs)"

definition hex_escape :: "nat \<Rightarrow> string \<Rightarrow> nat option" where
  "hex_escape n cs = (if length cs < n then None else hexnum 0 (take n cs))"

definition escape1 :: "char \<Rightarrow> exn + tok" where
  "escape1 e =
     (if e = CHR ''f'' then Inr (Lit 12)
      else if e = CHR ''n'' then Inr (Lit 10)
      else if e = CHR ''r'' then Inr (Lit 13)
      else if e = CHR ''t'' then Inr (Lit 9)
      else if e = CHR ''v'' then Inr (Lit 11)
      else if e = CHR ''0'' then Inr (Lit 0)
      else if e = CHR ''d'' then Inr (ClassEsc False Digit)
      else if e = CHR ''D'' then Inr (ClassEsc True Digit)
      else if e = CHR ''s'' then Inr (ClassEsc False Space)
      else if e = CHR ''S'' then Inr (ClassEsc True Space)
      else if e = CHR ''w'' then Inr (ClassEsc False Word)
      else if e = CHR ''W'' then Inr (ClassEsc True Word)
      else if e = CHR ''b'' then Inr (BoundaryEsc True)
      else if e = CHR ''B'' then Inr (BoundaryEsc False)
      else if isdigit e then Inl beyond_model
      else Inr (Lit (code e)))"

fun lex :: "string \<Rightarrow> exn + tok list" where
  "lex [] = Inr []"
| "lex (c # cs) =
     (if c \<noteq> CHR 0x5C then exn_map (Cons (Raw c)) (lex cs)
      else (case cs of
          [] \<Rightarrow> Inl regex_error
        | e # es \<Rightarrow>
            if e = CHR ''x'' then
              (case hex_escape 2 es of
                 None \<Rightarrow> Inl regex_error
               | Some v \<Rightarrow> exn_map (Cons (Lit v)) (lex (drop 2 es)))
            else if e = CHR ''u'' then
              (case hex_escape 4 es of
                 None \<Rightarrow> Inl regex_error
               | Some v \<Rightarrow> exn_map (Cons (Lit (v mod 256))) (lex (drop 4 es)))
            else if e = CHR ''c'' then
              (case es of
                 [] \<Rightarrow> Inl regex_error
               | l # ls \<Rightarrow>
                   if isalpha l then exn_map (Cons (Lit (code l mod 32))) (lex ls)
                   else Inl regex_error)
            else exn_bind (escape1 e) (\<lambda>t. exn_map (Cons t) (lex es))))"

datatype citem = CChar nat | CRange nat nat | CCls bool cls

datatype atom = Chr nat | AnyChar | Class bool "citem list"

datatype assertion = BeginLine | EndLine | Boundary bool

datatype item = IAtom atom | IAssert assertion | IQuant nat "nat option" | IAlt

definition class_char :: "tok \<Rightarrow> nat option" where
  "class_char t =
     (case t of Lit n \<Rightarrow> Some n | Raw c \<Rightarrow> Some (code c)
      | ClassEsc n k \<Rightarrow> None | BoundaryEsc b \<Rightarrow> (if b then Some 8 else None))"

definition class_single :: "tok \<Rightarrow> exn + citem" where
  "class_single t =
     (case t of ClassEsc n k \<Rightarrow> Inr (CCls n k)
      | _ \<Rightarrow> (case class_char t of None \<Rightarrow> Inl regex_error | Some n \<Rightarrow> Inr (CChar n)))"

fun class_items :: "tok list \<Rightarrow> exn + citem list" where
  "class_items [] = Inr []"
| "class_items (a # m # b # rest) =
     (if a = Raw CHR ''['' \<and> m \<in> {Raw CHR '':'', Raw CHR ''.'', Raw CHR ''=''}
      then Inl beyond_model
      else if m = Raw CHR ''-'' then
        (case (class_char a, class_char b) of
           (Some lo, Some hi) \<Rightarrow>
             if hi < lo then Inl regex_error
             else exn_map (Cons (CRange lo hi)) (class_items rest)
         | _ \<Rightarrow> Inl regex_error)
      else exn_bind (class_single a) (\<lambda>i. exn_map (Cons i) (class_items (m # b # rest))))"
| "class_items (a # rest) =
     (if a = Raw CHR ''['' \<and> rest \<noteq> [] then Inl beyond_model
      else exn_bind (class_single a) (\<lambda>i. exn_map (Cons i) (class_items rest)))"

definition bracket :: "tok list \<Rightarrow> exn + atom" where
  "bracket body =
     (case body of
        Raw c # rest \<Rightarrow>
          if c = CHR ''^'' then exn_map (Class True) (class_items rest)
          else exn_map (Class False) (class_items body)
      | _ \<Rightarrow> exn_map (Class False) (class_items body))"

definition digit_tok :: "tok \<Rightarrow> bool" where
  "digit_tok t = (case t of Raw c \<Rightarrow> isdigit c | _ \<Rightarrow> False)"

fun decimal :: "nat \<Rightarrow> tok list \<Rightarrow> nat" where
  "decimal acc [] = acc"
| "decimal acc (Raw c # ts) = decimal (10 * acc + (code c - 48)) ts"
| "decimal acc (_ # ts) = decimal acc ts"

definition bounds :: "tok list \<Rightarrow> (nat \<times> nat option) option" where
  "bounds body =
     (let ds = takeWhile digit_tok body; rest = dropWhile digit_tok body in
      if ds = [] then None
      else (case rest of
          [] \<Rightarrow> Some (decimal 0 ds, Some (decimal 0 ds))
        | t # hi \<Rightarrow>
            if t \<noteq> Raw CHR '','' \<or> \<not> list_all digit_tok hi then None
            else if hi = [] then Some (decimal 0 ds, None)
            else if decimal 0 hi < decimal 0 ds then None
            else Some (decimal 0 ds, Some (decimal 0 hi))))"

text \<open>
  The second pass folds a bracket expression into one atom and a brace expression into
  one quantifier. A bracket or a brace that is never closed, and a brace whose body is
  not \<open>n\<close>, \<open>n,\<close> or \<open>n,m\<close>, is a \<^verbatim>\<open>regex_error\<close>.
\<close>

fun items :: "tok list \<Rightarrow> exn + item list" where
  "items [] = Inr []"
| "items (Lit n # ts) = exn_map (Cons (IAtom (Chr n))) (items ts)"
| "items (ClassEsc n k # ts) = exn_map (Cons (IAtom (Class False [CCls n k]))) (items ts)"
| "items (BoundaryEsc b # ts) = exn_map (Cons (IAssert (Boundary b))) (items ts)"
| "items (Raw c # ts) =
     (if c = CHR ''['' then
        (let body = takeWhile (\<lambda>t. t \<noteq> Raw CHR '']'') ts in
         if length body = length ts then Inl regex_error
         else exn_bind (bracket body)
                (\<lambda>a. exn_map (Cons (IAtom a)) (items (drop (Suc (length body)) ts))))
      else if c = CHR ''{'' then
        (let body = takeWhile (\<lambda>t. t \<noteq> Raw CHR ''}'') ts in
         if length body = length ts then Inl regex_error
         else (case bounds body of
             None \<Rightarrow> Inl regex_error
           | Some (lo, hi) \<Rightarrow>
               exn_map (Cons (IQuant lo hi)) (items (drop (Suc (length body)) ts))))
      else if c = CHR ''('' \<or> c = CHR '')'' then Inl beyond_model
      else exn_map (Cons
             (if c = CHR ''*'' then IQuant 0 None
              else if c = CHR ''+'' then IQuant 1 None
              else if c = CHR ''?'' then IQuant 0 (Some 1)
              else if c = CHR ''|'' then IAlt
              else if c = CHR ''^'' then IAssert BeginLine
              else if c = CHR ''$'' then IAssert EndLine
              else if c = CHR ''.'' then IAtom AnyChar
              else IAtom (Chr (code c)))) (items ts))"

datatype rterm = Assert assertion | Rep atom nat "nat option"

definition add_term :: "rterm \<Rightarrow> rterm list list \<Rightarrow> rterm list list" where
  "add_term t alts = (case alts of [] \<Rightarrow> [[t]] | a # rest \<Rightarrow> (t # a) # rest)"

text \<open>
  The third pass attaches each quantifier to the atom before it. A quantifier with no
  atom before it is a \<^verbatim>\<open>regex_error\<close>.
\<close>

fun alternatives :: "item list \<Rightarrow> exn + rterm list list" where
  "alternatives [] = Inr [[]]"
| "alternatives (IAlt # is) = exn_map (Cons []) (alternatives is)"
| "alternatives (IQuant lo hi # is) = Inl regex_error"
| "alternatives (IAssert a # IQuant lo hi # is) = Inl regex_error"
| "alternatives (IAssert a # is) = exn_map (add_term (Assert a)) (alternatives is)"
| "alternatives (IAtom a # IQuant lo hi # IQuant lo' hi' # is) =
     (if lo' = 0 \<and> hi' = Some 1 then Inl beyond_model else Inl regex_error)"
| "alternatives (IAtom a # IQuant lo hi # is) =
     exn_map (add_term (Rep a lo hi)) (alternatives is)"
| "alternatives (IAtom a # is) = exn_map (add_term (Rep a 1 (Some 1))) (alternatives is)"

type_synonym regex = "rterm list list"

text \<open>The constructor \<^verbatim>\<open>std::regex(pattern)\<close>.\<close>

definition regex :: "string \<Rightarrow> exn + regex" where
  "regex pattern = exn_bind (lex pattern) (\<lambda>ts. exn_bind (items ts) alternatives)"

definition in_cls :: "cls \<Rightarrow> char \<Rightarrow> bool" where
  "in_cls k c = (case k of Digit \<Rightarrow> isdigit c | Space \<Rightarrow> isspace c | Word \<Rightarrow> isword c)"

definition in_citem :: "char \<Rightarrow> citem \<Rightarrow> bool" where
  "in_citem c i =
     (case i of CChar n \<Rightarrow> code c = n
      | CRange lo hi \<Rightarrow> lo \<le> code c \<and> code c \<le> hi
      | CCls neg k \<Rightarrow> in_cls k c \<noteq> neg)"

definition atom_matches :: "atom \<Rightarrow> char \<Rightarrow> bool" where
  "atom_matches a c =
     (case a of Chr n \<Rightarrow> code c = n
      | AnyChar \<Rightarrow> code c \<noteq> 10 \<and> code c \<noteq> 13
      | Class neg is \<Rightarrow> list_ex (in_citem c) is \<noteq> neg)"

text \<open>
  Matching is the backtracking, greedy, first-alternative matching of ECMAScript.
  \<open>prev\<close> is the character before the position (\<open>None\<close> at the start of the text), the
  result is the text left after the match.
\<close>

definition holds :: "assertion \<Rightarrow> char option \<Rightarrow> string \<Rightarrow> bool" where
  "holds a prev s =
     (case a of
        BeginLine \<Rightarrow> prev = None
      | EndLine \<Rightarrow> s = []
      | Boundary b \<Rightarrow>
          ((case prev of None \<Rightarrow> False | Some p \<Rightarrow> isword p)
             \<noteq> (case s of [] \<Rightarrow> False | c # _ \<Rightarrow> isword c)) = b)"

fun match_rep ::
  "(char option \<Rightarrow> string \<Rightarrow> string option) \<Rightarrow> atom \<Rightarrow> nat \<Rightarrow> nat option \<Rightarrow>
   char option \<Rightarrow> string \<Rightarrow> string option" where
  "match_rep k a lo hi prev [] = (if lo = 0 then k prev [] else None)"
| "match_rep k a lo hi prev (c # cs) =
     (if atom_matches a c \<and> hi \<noteq> Some 0 then
        (case match_rep k a (lo - 1) (map_option (\<lambda>h. h - 1) hi) (Some c) cs of
           Some rest \<Rightarrow> Some rest
         | None \<Rightarrow> if lo = 0 then k prev (c # cs) else None)
      else if lo = 0 then k prev (c # cs) else None)"

primrec match_seq :: "rterm list \<Rightarrow> char option \<Rightarrow> string \<Rightarrow> string option" where
  "match_seq [] = (\<lambda>prev s. Some s)"
| "match_seq (t # ts) =
     (\<lambda>prev s. case t of
        Assert a \<Rightarrow> if holds a prev s then match_seq ts prev s else None
      | Rep a lo hi \<Rightarrow> match_rep (match_seq ts) a lo hi prev s)"

fun match_alts :: "regex \<Rightarrow> char option \<Rightarrow> string \<Rightarrow> string option" where
  "match_alts [] prev s = None"
| "match_alts (alt # alts) prev s =
     (case match_seq alt prev s of Some rest \<Rightarrow> Some rest | None \<Rightarrow> match_alts alts prev s)"

text \<open>
  \<^verbatim>\<open>std::regex_replace\<close> with the default flags: every match, found from left to
  right without overlap, is replaced by \<open>fmt\<close>; the text between matches is copied. No
  replacement string of the repository contains \<^verbatim>\<open>$\<close>, so \<open>fmt\<close> is copied as it
  is. No pattern of the repository that compiles matches the empty string, and the model
  takes an empty match for no match at that position.
\<close>

fun replace_all :: "regex \<Rightarrow> string \<Rightarrow> char option \<Rightarrow> string \<Rightarrow> string" where
  "replace_all r fmt prev [] = []"
| "replace_all r fmt prev (c # cs) =
     (case match_alts r prev (c # cs) of
        None \<Rightarrow> c # replace_all r fmt (Some c) cs
      | Some rest \<Rightarrow>
          if length rest < length (c # cs)
          then fmt @ replace_all r fmt
                 (Some (last (take (length (c # cs) - length rest) (c # cs)))) rest
          else c # replace_all r fmt (Some c) cs)"

definition regex_replace :: "string \<Rightarrow> string \<Rightarrow> string \<Rightarrow> exn + string" where
  "regex_replace s pattern fmt = exn_map (\<lambda>r. replace_all r fmt None s) (regex pattern)"

section \<open>PDFTextExtractor\<close>

record PageRange =
  startPage :: int
  endPage :: int
  totalPages :: int

text \<open>The member \<^verbatim>\<open>text\<close> of \<^verbatim>\<open>TextChunk\<close> is \<open>text'\<close>: \<open>text\<close> is a keyword here.\<close>

record TextChunk =
  text' :: string
  wordCount :: int

record ExtractionResult =
  success :: bool
  errorMessage :: string
  fullText :: string
  chunks :: "TextChunk list"
  pageRange :: PageRange
  isChunked :: bool

text \<open>
  \<^verbatim>\<open>splitIntoWords\<close> reads the text with \<^verbatim>\<open>iss >> word\<close>: the extraction skips
  white space, then takes characters up to the next white space or the end. \<open>cur\<close> is
  the word being read.
\<close>

fun split_from :: "string \<Rightarrow> string \<Rightarrow> string list" where
  "split_from cur [] = (if cur = [] then [] else [cur])"
| "split_from cur (c # cs) =
     (if isspace c then (if cur = [] then split_from [] cs else cur # split_from [] cs)
      else split_from (cur @ [c]) cs)"

definition splitIntoWords :: "string \<Rightarrow> string list" where
  "splitIntoWords s = split_from [] s"

fun join_from :: "nat \<Rightarrow> string list \<Rightarrow> string" where
  "join_from i [] = []"
| "join_from i (w # ws) = (if 0 < i then '' '' else []) @ w @ join_from (Suc i) ws"

definition joinWords :: "string list \<Rightarrow> string" where
  "joinWords ws = join_from 0 ws"

text \<open>
  \<^verbatim>\<open>trim\<close> cuts the spaces (only the character 32) at both ends; a string of
  spaces becomes empty.
\<close>

definition trim :: "string \<Rightarrow> string" where
  "trim str =
     (let rest = dropWhile (\<lambda>c. c = CHR '' '') str in
      if rest = [] then [] else rev (dropWhile (\<lambda>c. c = CHR '' '') (rev rest)))"

text \<open>
  The loop of \<^verbatim>\<open>chunkText\<close> over the words, on its three variables: the chunks
  closed so far, \<^verbatim>\<open>currentChunk\<close> and \<^verbatim>\<open>currentWordCount\<close>.
\<close>

fun chunk_loop ::
  "int \<Rightarrow> string list \<Rightarrow> TextChunk list \<times> string list \<times> int \<Rightarrow>
   TextChunk list \<times> string list \<times> int" where
  "chunk_loop chunkSize [] st = st"
| "chunk_loop chunkSize (w # ws) (cs, currentChunk, currentWordCount) =
     (if currentWordCount + 1 \<ge> chunkSize
      then chunk_loop chunkSize ws
             (cs @ [\<lparr>text' = joinWords (currentChunk @ [w]), wordCount = currentWordCount + 1\<rparr>],
              [], 0)
      else chunk_loop chunkSize ws (cs, currentChunk @ [w], currentWordCount + 1))"

definition chunkText :: "string \<Rightarrow> int \<Rightarrow> TextChunk list" where
  "chunkText s chunkSize =
     (case chunk_loop chunkSize (splitIntoWords s) ([], [], 0) of
        (cs, currentChunk, currentWordCount) \<Rightarrow>
          if currentChunk \<noteq> []
          then cs @ [\<lparr>text' = joinWords currentChunk, wordCount = currentWordCount\<rparr>]
          else cs)"

text \<open>The table \<^verbatim>\<open>latexReplacements\<close>, in the order the source lists it.\<close>

definition latexReplacements :: "(string \<times> string) list" where
  "latexReplacements =
     [(raw ''/frac{'', '' fraction ''),
      (raw ''/sqrt{'', '' square root of ''),
      (raw ''/sum'', '' sum ''),
      (raw ''/int'', '' integral ''),
      (raw ''/lim'', '' limit ''),
      (raw ''/infty'', '' infinity ''),
      (raw ''/alpha'', '' alpha ''),
      (raw ''/beta'', '' beta ''),
      (raw ''/gamma'', '' gamma ''),
      (raw ''/delta'', '' delta ''),
      (raw ''/epsilon'', '' epsilon ''),
      (raw ''/theta'', '' theta ''),
      (raw ''/lambda'', '' lambda ''),
      (raw ''/mu'', '' mu ''),
      (raw ''/pi'', '' pi ''),
      (raw ''/sigma'', '' sigma ''),
      (raw ''/tau'', '' tau ''),
      (raw ''/phi'', '' phi ''),
      (raw ''/omega'', '' omega ''),
      (raw ''/times'', '' times ''),
      (raw ''/div'', '' divided by ''),
      (raw ''/pm'', '' plus or minus ''),
      (raw ''/leq'', '' less than or equal to ''),
      (raw ''/geq'', '' greater than or equal to ''),
      (raw ''/neq'', '' not equal to ''),
      (raw ''/approx'', '' approximately equal to ''),
      (raw ''/equiv'', '' equivalent to ''),
      (raw ''/propto'', '' proportional to ''),
      (raw ''/in'', '' in ''),
      (raw ''/notin'', '' not in ''),
      (raw ''/subset'', '' subset of ''),
      (raw ''/supset'', '' superset of ''),
      (raw ''/cup'', '' union ''),
      (raw ''/cap'', '' intersection ''),
      (raw ''/emptyset'', '' empty set ''),
      (raw ''/forall'', '' for all ''),
      (raw ''/exists'', '' there exists ''),
      (raw ''/rightarrow'', '' implies ''),
      (raw ''/leftarrow'', '' implied by ''),
      (raw ''/leftrightarrow'', '' if and only if ''),
      (''^{'', '' to the power of ''),
      (''_{'', '' sub ''),
      (''}'', '' '')]"

text \<open>
  The table is a \<^verbatim>\<open>std::map<std::string, std::string>\<close>: built from the
  initialiser list by inserting each entry (an entry whose key is present is dropped),
  and iterated in ascending order of the keys, which \<^verbatim>\<open>std::string\<close> compares
  byte by byte.
\<close>

fun string_less :: "string \<Rightarrow> string \<Rightarrow> bool" where
  "string_less [] [] = False"
| "string_less [] (y # ys) = True"
| "string_less (x # xs) [] = False"
| "string_less (x # xs) (y # ys) =
     (code x < code y \<or> (code x = code y \<and> string_less xs ys))"

fun map_insert :: "string \<times> string \<Rightarrow> (string \<times> string) list \<Rightarrow> (string \<times> string) list" where
  "map_insert e [] = [e]"
| "map_insert e (x # xs) =
     (if string_less (fst e) (fst x) then e # x # xs
      else if string_less (fst x) (fst e) then x # map_insert e xs
      else x # xs)"

definition std_map :: "(string \<times> string) list \<Rightarrow> (string \<times> string) list" where
  "std_map entries = foldl (\<lambda>m e. map_insert e m) [] entries"

text \<open>
  The loop \<^verbatim>\<open>for (const auto& replacement : latexReplacements)\<close>: each key is
  compiled as a regular expression, not searched as a literal.
\<close>

fun applyReplacements :: "(string \<times> string) list \<Rightarrow> string \<Rightarrow> exn + string" where
  "applyReplacements [] cleaned = Inr cleaned"
| "applyReplacements (replacement # rest) cleaned =
     exn_bind (regex_replace cleaned (fst replacement) (snd replacement))
       (applyReplacements rest)"

definition cleanTextForTTS :: "string \<Rightarrow> exn + string" where
  "cleanTextForTTS s =
     exn_bind (regex_replace s (raw ''[/x00-/x08/x0B/x0C/x0E-/x1F/x7F]'') []) (\<lambda>c1.
     exn_bind (regex_replace c1 (raw ''[/u200B-/u200D/u2060/uFEFF]'') []) (\<lambda>c2.
     exn_bind (regex_replace c2
        (raw ''[/u00A0/u2000-/u200F/u2028-/u202F/u205F-/u206F/u3000]'') '' '') (\<lambda>c3.
     exn_bind (regex_replace c3 (raw ''///(|///)|///[|///]|/$/$|/$'') '' '') (\<lambda>c4.
     exn_bind (applyReplacements (std_map latexReplacements) c4) (\<lambda>c5.
     exn_bind (regex_replace c5 (raw ''/s{2,}'') '' '') (\<lambda>c6.
     Inr (trim c6)))))))"

text \<open>
  The document backend is platform code outside the core: whether the file opens, the
  page count it reports and the text it extracts are parameters.
\<close>

record DocumentBackend =
  fileGood :: "string \<Rightarrow> bool"
  getPageCount :: "string \<Rightarrow> int"
  extractTextFromPDF :: "string \<Rightarrow> int \<Rightarrow> int \<Rightarrow> string"

text \<open>
  \<^verbatim>\<open>ExtractionResult result;\<close> default-initialises the local: the two strings
  and the vector are empty, the members \<^verbatim>\<open>success\<close>, \<^verbatim>\<open>pageRange\<close> and
  \<^verbatim>\<open>isChunked\<close> have no initialiser and keep what the storage \<open>u\<close> holds.
\<close>

definition local_result :: "ExtractionResult \<Rightarrow> ExtractionResult" where
  "local_result u = u\<lparr>errorMessage := [], fullText := [], chunks := []\<rparr>"

text \<open>
  The end of \<^verbatim>\<open>extractTextFromPages\<close>, from the word count of the cleaned text to
  \<^verbatim>\<open>result.success = true\<close>.
\<close>

definition chunkingDecision :: "ExtractionResult \<Rightarrow> ExtractionResult" where
  "chunkingDecision result =
     (let n = int (length (splitIntoWords (fullText result)));
          chunkSize = 10000 in
      (if n > chunkSize
       then result\<lparr>isChunked := True, chunks := chunkText (fullText result) chunkSize\<rparr>
       else result\<lparr>isChunked := False,
              chunks := chunks result @ [\<lparr>text' = fullText result, wordCount = n\<rparr>]\<rparr>)
        \<lparr>success := True\<rparr>)"

definition extractTextFromPages ::
  "DocumentBackend \<Rightarrow> ExtractionResult \<Rightarrow> string \<Rightarrow> int \<Rightarrow> int \<Rightarrow> exn + ExtractionResult" where
  "extractTextFromPages be u filePath startPageIn endPageIn =
     (let result = (local_result u)\<lparr>success := False\<rparr>;
          pageCount = getPageCount be filePath in
      if pageCount \<le> 0
      then Inr (result\<lparr>errorMessage := ''Could not determine page count''\<rparr>)
      else
        let first = max 1 startPageIn; final = min pageCount endPageIn in
        if first > final
        then Inr (result\<lparr>errorMessage := ''Invalid page range''\<rparr>)
        else
          let ranged = result\<lparr>pageRange :=
                \<lparr>startPage = first, endPage = final, totalPages = pageCount\<rparr>\<rparr>;
              extractedText = extractTextFromPDF be filePath first final in
          if extractedText = []
          then Inr (ranged\<lparr>errorMessage :=
                 ''No text could be extracted from the specified pages''\<rparr>)
          else exn_map (\<lambda>cleaned. chunkingDecision (ranged\<lparr>fullText := cleaned\<rparr>))
                 (cleanTextForTTS extractedText))"

text \<open>
  \<^verbatim>\<open>extractText\<close> has a local result of its own (in the storage \<open>u\<close>) and hands
  a readable document with a positive page count to \<^verbatim>\<open>extractTextFromPages\<close>,
  whose local lives in the storage \<open>v\<close>.
\<close>

definition extractText ::
  "DocumentBackend \<Rightarrow> ExtractionResult \<Rightarrow> ExtractionResult \<Rightarrow> string \<Rightarrow> exn + ExtractionResult" where
  "extractText be u v filePath =
     (let result = (local_result u)\<lparr>success := False\<rparr> in
      if \<not> fileGood be filePath
      then Inr (result\<lparr>errorMessage := ''File does not exist or cannot be opened''\<rparr>)
      else
        let pageCount = getPageCount be filePath in
        if pageCount \<le> 0
        then Inr (result\<lparr>errorMessage :=
               ''Could not determine page count or PDF is invalid''\<rparr>)
        else extractTextFromPages be v filePath 1 pageCount)"

section \<open>TextToSpeech\<close>

datatype SpeechState = Stopped | Speaking | Paused

text \<open>
  The \<^verbatim>\<open>float\<close> members are only stored and handed on, never computed with in
  the controller: they are real numbers here.
\<close>

record SpeechSettings =
  rate :: real
  pitch :: real
  volume :: real
  voiceId :: string

text \<open>
  A callback is a \<^verbatim>\<open>std::function\<close> member, empty until the caller sets it, and
  invoked only when set. The model keeps whether each one is set, and the list \<open>invoked\<close>
  of the invocations made so far, oldest first. What the body of a callback does is the
  caller's code; the model takes it not to call back into the controller.
\<close>

datatype callback =
  SpeechStarted | SpeechFinished | SpeechPaused | SpeechResumed | Progress real int int

record Impl =
  state :: SpeechState
  settings :: SpeechSettings
  chunks :: "string list"
  currentChunk :: int
  isChunked :: bool
  progress :: real
  currentWordIndex :: int
  totalWords :: int
  speechStartedCallback :: bool
  speechFinishedCallback :: bool
  speechPausedCallback :: bool
  speechResumedCallback :: bool
  progressCallback :: bool
  invoked :: "callback list"

text \<open>The member initialisers of the class and of \<^verbatim>\<open>SpeechSettings\<close>.\<close>

definition initial :: Impl where
  "initial =
     \<lparr>state = Stopped,
      settings = \<lparr>rate = 1 / 2, pitch = 1, volume = 1, voiceId = []\<rparr>,
      chunks = [], currentChunk = 0, isChunked = False,
      progress = 0, currentWordIndex = 0, totalWords = 0,
      speechStartedCallback = False, speechFinishedCallback = False,
      speechPausedCallback = False, speechResumedCallback = False,
      progressCallback = False, invoked = []\<rparr>"

text \<open>
  The speech engine is platform code: whether it accepts an utterance and whether it
  knows a voice are parameters. Neither platform function writes a member of the
  controller, except that the platform's \<^verbatim>\<open>speak\<close> calls
  \<^verbatim>\<open>onSpeechStarted()\<close> before it returns \<^verbatim>\<open>true\<close>.
\<close>

record SpeechBackend =
  speakPlatform :: "string \<Rightarrow> bool"
  setVoicePlatform :: "string \<Rightarrow> bool"

definition invoke :: "bool \<Rightarrow> callback \<Rightarrow> Impl \<Rightarrow> Impl" where
  "invoke installed cb s = (if installed then s\<lparr>invoked := invoked s @ [cb]\<rparr> else s)"

text \<open>The text cleaning of the controller: control characters, runs of white space, trim.\<close>

definition speech_cleanTextForTTS :: "string \<Rightarrow> exn + string" where
  "speech_cleanTextForTTS s =
     exn_bind (regex_replace s (raw ''[/x00-/x08/x0B/x0C/x0E-/x1F/x7F]'') []) (\<lambda>c1.
     exn_bind (regex_replace c1 (raw ''/s{2,}'') '' '') (\<lambda>c2.
     Inr (trim c2)))"

definition onSpeechStarted :: "Impl \<Rightarrow> Impl" where
  "onSpeechStarted s = invoke (speechStartedCallback s) SpeechStarted (s\<lparr>state := Speaking\<rparr>)"

definition speak :: "SpeechBackend \<Rightarrow> string \<Rightarrow> Impl \<Rightarrow> exn + bool \<times> Impl" where
  "speak be s0 s =
     (if s0 = [] then Inr (False, s)
      else exn_bind (speech_cleanTextForTTS s0) (\<lambda>cleanedText.
        if cleanedText = [] then Inr (False, s)
        else if speakPlatform be cleanedText then Inr (True, onSpeechStarted s)
        else Inr (False, s)))"

text \<open>
  \<^verbatim>\<open>currentChunk\<close> and \<^verbatim>\<open>startChunk\<close> are \<^verbatim>\<open>int\<close>, the size of the
  vector is a \<^verbatim>\<open>size_t\<close>: a comparison of the two converts the \<^verbatim>\<open>int\<close> to
  the unsigned type (of 64 bits), and \<^verbatim>\<open>chunks.size() - 1\<close> wraps around on an
  empty vector.
\<close>

definition size_t :: "int \<Rightarrow> int" where
  "size_t i = i mod 2 ^ 64"

definition speakCurrentChunk :: "SpeechBackend \<Rightarrow> Impl \<Rightarrow> exn + bool \<times> Impl" where
  "speakCurrentChunk be s =
     (if isChunked s \<and> size_t (currentChunk s) < int (length (chunks s))
      then speak be (chunks s ! nat (currentChunk s)) s
      else Inr (False, s))"

definition speakChunked ::
  "SpeechBackend \<Rightarrow> string list \<Rightarrow> int \<Rightarrow> Impl \<Rightarrow> exn + bool \<times> Impl" where
  "speakChunked be cs startChunk s =
     (if cs = [] \<or> size_t startChunk \<ge> int (length cs) then Inr (False, s)
      else speakCurrentChunk be
             (s\<lparr>chunks := cs, currentChunk := startChunk, isChunked := True\<rparr>))"

definition pause :: "Impl \<Rightarrow> Impl" where
  "pause s =
     (if state s = Speaking
      then invoke (speechPausedCallback s) SpeechPaused (s\<lparr>state := Paused\<rparr>)
      else s)"

definition resume :: "Impl \<Rightarrow> Impl" where
  "resume s =
     (if state s = Paused
      then invoke (speechResumedCallback s) SpeechResumed (s\<lparr>state := Speaking\<rparr>)
      else s)"

definition stop :: "Impl \<Rightarrow> Impl" where
  "stop s =
     (if state s \<noteq> Stopped
      then s\<lparr>state := Stopped, isChunked := False, chunks := [], currentChunk := 0\<rparr>
      else s)"

definition getState :: "Impl \<Rightarrow> SpeechState" where
  "getState s = state s"

definition setSettings :: "SpeechSettings \<Rightarrow> Impl \<Rightarrow> Impl" where
  "setSettings new s = s\<lparr>settings := new\<rparr>"

definition getSettings :: "Impl \<Rightarrow> SpeechSettings" where
  "getSettings s = settings s"

definition setVoice :: "SpeechBackend \<Rightarrow> string \<Rightarrow> Impl \<Rightarrow> bool \<times> Impl" where
  "setVoice be v s =
     (let s' = s\<lparr>settings := (settings s)\<lparr>voiceId := v\<rparr>\<rparr>
      in (setVoicePlatform be v, s'))"

definition getProgress :: "Impl \<Rightarrow> real" where
  "getProgress s = progress s"

definition getCurrentWordIndex :: "Impl \<Rightarrow> int" where
  "getCurrentWordIndex s = currentWordIndex s"

definition getTotalWords :: "Impl \<Rightarrow> int" where
  "getTotalWords s = totalWords s"

text \<open>
  The completion event of the engine. The result of \<^verbatim>\<open>speakCurrentChunk()\<close> for
  the next chunk is dropped.
\<close>

definition onSpeechFinished :: "SpeechBackend \<Rightarrow> Impl \<Rightarrow> exn + Impl" where
  "onSpeechFinished be s =
     (if isChunked s \<and> size_t (currentChunk s) < size_t (int (length (chunks s)) - 1)
      then exn_map snd (speakCurrentChunk be (s\<lparr>currentChunk := currentChunk s + 1\<rparr>))
      else Inr (invoke (speechFinishedCallback s) SpeechFinished
             (s\<lparr>state := Stopped, isChunked := False, chunks := [], currentChunk := 0\<rparr>)))"

definition onProgress :: "real \<Rightarrow> int \<Rightarrow> int \<Rightarrow> Impl \<Rightarrow> Impl" where
  "onProgress p currentWord n s =
     invoke (progressCallback s) (Progress p currentWord n)
       (s\<lparr>progress := p, currentWordIndex := currentWord, totalWords := n\<rparr>)"

section \<open>Concrete collaborators for the examples\<close>

text \<open>A speech engine that accepts every utterance and knows no voice.\<close>

definition accepting_engine :: SpeechBackend where
  "accepting_engine = \<lparr>speakPlatform = (\<lambda>t. True), setVoicePlatform = (\<lambda>v. False)\<rparr>"

text \<open>Storage that holds zeros, and a readable document of ten pages without text.\<close>

definition blank_result :: ExtractionResult where
  "blank_result =
     \<lparr>success = False, errorMessage = [], fullText = [], chunks = [],
      pageRange = \<lparr>startPage = 0, endPage = 0, totalPages = 0\<rparr>, isChunked = False\<rparr>"

definition ten_blank_pages :: DocumentBackend where
  "ten_blank_pages =
     \<lparr>fileGood = (\<lambda>p. True), getPageCount = (\<lambda>p. 10), extractTextFromPDF = (\<lambda>p a b. [])\<rparr>"

text \<open>
  A readable document of one page from which the backend extracts the word \<open>a\<close>
  \<open>n\<close> times, each followed by a space.
\<close>

definition words_document :: "nat \<Rightarrow> DocumentBackend" where
  "words_document n =
     \<lparr>fileGood = (\<lambda>p. True), getPageCount = (\<lambda>p. 1),
      extractTextFromPDF = (\<lambda>p a b. concat (replicate n ''a ''))\<rparr>"

section \<open>Notions used in the statements and proofs\<close>

text \<open>
  The chunk \<^verbatim>\<open>chunkText\<close> builds from a run of words; a word as
  \<^verbatim>\<open>splitIntoWords\<close> returns it (not empty, no white space); the words of a list,
  each with a space before it.
\<close>

definition chunk_of :: "string list \<Rightarrow> TextChunk" where
  "chunk_of b = \<lparr>text' = joinWords b, wordCount = int (length b)\<rparr>"

definition proper_word :: "string \<Rightarrow> bool" where
  "proper_word w = (w \<noteq> [] \<and> list_all (\<lambda>c. \<not> isspace c) w)"

definition spaced :: "string list \<Rightarrow> string" where
  "spaced ws = concat (map (\<lambda>w. CHR '' '' # w) ws)"

text \<open>
  The utterances \<^verbatim>\<open>speak\<close> starts: those that are not empty, stay not empty when
  cleaned, and are accepted by the platform.
\<close>

definition accepts :: "SpeechBackend \<Rightarrow> string \<Rightarrow> bool" where
  "accepts be c =
     (c \<noteq> [] \<and> (case speech_cleanTextForTTS c of
                   Inl e \<Rightarrow> False
                 | Inr cleaned \<Rightarrow> cleaned \<noteq> [] \<and> speakPlatform be cleaned))"

text \<open>
  The run of \<^verbatim>\<open>speakChunked\<close> at index 0 followed by three completion events of the
  engine, each on the state the step before left.
\<close>

definition run_three :: "SpeechBackend \<Rightarrow> string list \<Rightarrow> Impl \<Rightarrow> exn + Impl" where
  "run_three be cs s =
     exn_bind (speakChunked be cs 0 s) (\<lambda>started.
     exn_bind (onSpeechFinished be (snd started)) (\<lambda>s2.
     exn_bind (onSpeechFinished be s2) (\<lambda>s3.
     onSpeechFinished be s3)))"

section \<open>Properties of the patterns\<close>

lemmas rx_eval =
  regex_def exn_bind_def exn_map_def raw_def code_def isdigit_def isalpha_def isspace_def isword_def
  hexval_def hex_escape_def escape1_def class_char_def class_single_def bracket_def
  digit_tok_def bounds_def add_term_def Let_def

text \<open>
  The order in which the loop of \<^verbatim>\<open>cleanTextForTTS\<close> meets the entries of the table:
  the order of the keys, not the order of the source.
\<close>

lemma table_order:
  "std_map latexReplacements =
     [(raw ''/alpha'', '' alpha ''),
      (raw ''/approx'', '' approximately equal to ''),
      (raw ''/beta'', '' beta ''),
      (raw ''/cap'', '' intersection ''),
      (raw ''/cup'', '' union ''),
      (raw ''/delta'', '' delta ''),
      (raw ''/div'', '' divided by ''),
      (raw ''/emptyset'', '' empty set ''),
      (raw ''/epsilon'', '' epsilon ''),
      (raw ''/equiv'', '' equivalent to ''),
      (raw ''/exists'', '' there exists ''),
      (raw ''/forall'', '' for all ''),
      (raw ''/frac{'', '' fraction ''),
      (raw ''/gamma'', '' gamma ''),
      (raw ''/geq'', '' greater than or equal to ''),
      (raw ''/in'', '' in ''),
      (raw ''/infty'', '' infinity ''),
      (raw ''/int'', '' integral ''),
      (raw ''/lambda'', '' lambda ''),
      (raw ''/leftarrow'', '' implied by ''),
      (raw ''/leftrightarrow'', '' if and only if ''),
      (raw ''/leq'', '' less than or equal to ''),
      (raw ''/lim'', '' limit ''),
      (raw ''/mu'', '' mu ''),
      (raw ''/neq'', '' not equal to ''),
      (raw ''/notin'', '' not in ''),
      (raw ''/omega'', '' omega ''),
      (raw ''/phi'', '' phi ''),
      (raw ''/pi'', '' pi ''),
      (raw ''/pm'', '' plus or minus ''),
      (raw ''/propto'', '' proportional to ''),
      (raw ''/rightarrow'', '' implies ''),
      (raw ''/sigma'', '' sigma ''),
      (raw ''/sqrt{'', '' square root of ''),
      (raw ''/subset'', '' subset of ''),
      (raw ''/sum'', '' sum ''),
      (raw ''/supset'', '' superset of ''),
      (raw ''/tau'', '' tau ''),
      (raw ''/theta'', '' theta ''),
      (raw ''/times'', '' times ''),
      (''^{'', '' to the power of ''),
      (''_{'', '' sub ''),
      (''}'', '' '')]"
  by (simp add: std_map_def latexReplacements_def raw_def code_def)

text \<open>
  The key \<^verbatim>\<open>\frac{\<close> is no regular expression: its brace opens a quantifier that has
  no bounds and is never closed.
\<close>

lemma frac_rejected: "regex (raw ''/frac{'') = Inl regex_error"
  by (simp add: rx_eval)

text \<open>The patterns written as raw literals in the source compile.\<close>

lemma control_class_compiles: "\<not> isl (regex (raw ''[/x00-/x08/x0B/x0C/x0E-/x1F/x7F]''))"
  by (simp add: rx_eval)

lemma zero_width_class_compiles: "\<not> isl (regex (raw ''[/u200B-/u200D/u2060/uFEFF]''))"
  by (simp add: rx_eval)

lemma unicode_space_class_compiles:
  "\<not> isl (regex (raw ''[/u00A0/u2000-/u200F/u2028-/u202F/u205F-/u206F/u3000]''))"
  by (simp add: rx_eval)

lemma math_delimiters_compile: "\<not> isl (regex (raw ''///(|///)|///[|///]|/$/$|/$''))"
  by (simp add: rx_eval)

lemma space_run_compiles: "\<not> isl (regex (raw ''/s{2,}''))"
  by (simp add: rx_eval)

lemmas match_eval =
  regex_replace_def in_cls_def in_citem_def atom_matches_def holds_def trim_def

text \<open>
  The replacement at work: runs of white space, the delimiters of mathematics, and a key of
  the table that compiles, \<^verbatim>\<open>\beta\<close>, which as a regular expression is a word
  boundary followed by \<^verbatim>\<open>eta\<close> and does not match in \<^verbatim>\<open>\beta\<close>.
\<close>

lemma regex_replace_examples:
  "regex_replace ''a   b  c d'' (raw ''/s{2,}'') '' '' = Inr ''a b c d''"
  "regex_replace (raw ''x /(a/) $$b$'') (raw ''///(|///)|///[|///]|/$/$|/$'') ''_''
     = Inr ''x _a_ _b_''"
  "regex_replace (raw ''/beta eta'') (raw ''/beta'') '' beta '' = Inr (raw ''/beta  beta '')"
  by (simp_all add: rx_eval match_eval)

section \<open>Properties of the normaliser\<close>

lemma regex_replace_compiled:
  "\<not> isl (regex p) \<Longrightarrow> \<exists>c. regex_replace s p fmt = Inr c"
  by (cases "regex p") (simp_all add: regex_replace_def exn_map_def)

lemma applyReplacements_stops:
  "list_all (\<lambda>e. \<not> isl (regex (fst e))) pre \<Longrightarrow> regex (fst e) = Inl x \<Longrightarrow>
   applyReplacements (pre @ e # post) c = Inl x"
proof (induction pre arbitrary: c)
  case Nil
  then show ?case by (simp add: regex_replace_def exn_map_def exn_bind_def)
next
  case (Cons p pre)
  from Cons.prems(1) obtain c' where "regex_replace c (fst p) (snd p) = Inr c'"
    using regex_replace_compiled [of "fst p" c "snd p"] by auto
  with Cons show ?case by (simp add: exn_bind_def)
qed

lemma before_frac_compile:
  "list_all (\<lambda>e. \<not> isl (regex (fst e)))
     [(raw ''/alpha'', '' alpha ''),
      (raw ''/approx'', '' approximately equal to ''),
      (raw ''/beta'', '' beta ''),
      (raw ''/cap'', '' intersection ''),
      (raw ''/cup'', '' union ''),
      (raw ''/delta'', '' delta ''),
      (raw ''/div'', '' divided by ''),
      (raw ''/emptyset'', '' empty set ''),
      (raw ''/epsilon'', '' epsilon ''),
      (raw ''/equiv'', '' equivalent to ''),
      (raw ''/exists'', '' there exists ''),
      (raw ''/forall'', '' for all '')]"
  by (simp add: rx_eval)

lemma loop_throws: "applyReplacements (std_map latexReplacements) c = Inl regex_error"
  unfolding table_order
  using applyReplacements_stops [OF before_frac_compile, of "(raw ''/frac{'', '' fraction '')" regex_error]
  by (simp add: frac_rejected)

lemma cleanTextForTTS_throws: "cleanTextForTTS s = Inl regex_error"
proof -
  obtain c1 where c1: "regex_replace s (raw ''[/x00-/x08/x0B/x0C/x0E-/x1F/x7F]'') [] = Inr c1"
    using regex_replace_compiled [OF control_class_compiles] by blast
  obtain c2 where c2: "regex_replace c1 (raw ''[/u200B-/u200D/u2060/uFEFF]'') [] = Inr c2"
    using regex_replace_compiled [OF zero_width_class_compiles] by blast
  obtain c3 where c3: "regex_replace c2
      (raw ''[/u00A0/u2000-/u200F/u2028-/u202F/u205F-/u206F/u3000]'') '' '' = Inr c3"
    using regex_replace_compiled [OF unicode_space_class_compiles] by blast
  obtain c4 where c4: "regex_replace c3 (raw ''///(|///)|///[|///]|/$/$|/$'') '' '' = Inr c4"
    using regex_replace_compiled [OF math_delimiters_compile] by blast
  show ?thesis
    unfolding cleanTextForTTS_def
    by (simp only: c1 c2 c3 c4 loop_throws exn_bind_def sum.case)
qed

text \<open>
  C2. The claim is that the substitutions are literal replacements applied in the order of
  the table, \<^verbatim>\<open>\frac{\<close> first. The code iterates a \<^verbatim>\<open>std::map\<close>, whose first
  key is \<^verbatim>\<open>\alpha\<close>, and compiles every key as a regular expression; the key
  \<^verbatim>\<open>\frac{\<close> does not compile, and the text \<^verbatim>\<open>\frac{1}{2}\<close> is not
  normalised: the call throws.
\<close>

theorem latex_table_not_literal_not_in_order:
  "cleanTextForTTS (raw ''/frac{1}{2}'') = Inl regex_error
   \<and> regex (raw ''/frac{'') = Inl regex_error
   \<and> fst (hd (std_map latexReplacements)) = raw ''/alpha''
   \<and> fst (hd latexReplacements) = raw ''/frac{''"
proof -
  have "fst (hd (std_map latexReplacements)) = raw ''/alpha''"
    by (simp add: table_order)
  moreover have "fst (hd latexReplacements) = raw ''/frac{''"
    by (simp add: latexReplacements_def)
  ultimately show ?thesis
    by (simp add: cleanTextForTTS_throws frac_rejected)
qed

text \<open>
  C3. The claim is that \<^verbatim>\<open>\alpha + \beta = \pi\<close> is normalised to
  \<^verbatim>\<open>alpha + beta = pi\<close>. The code returns no string for it: the call throws
  \<^verbatim>\<open>std::regex_error\<close>.
\<close>

theorem normalize_alpha_beta_pi_throws:
  "cleanTextForTTS (raw ''/alpha + /beta = /pi'') = Inl regex_error"
  by (rule cleanTextForTTS_throws)

section \<open>Properties of the chunker\<close>

lemma chunk_loop_blocks:
  assumes "0 < S" "int (length cur) < S"
  shows "\<exists>bs rest. chunk_loop S ws (cs, cur, int (length cur)) = (cs @ map chunk_of bs, rest, int (length rest))
           \<and> list_all (\<lambda>b. int (length b) = S) bs
           \<and> concat bs @ rest = cur @ ws \<and> int (length rest) < S"
  using assms
proof (induction ws arbitrary: cs cur)
  case Nil
  have "chunk_loop S [] (cs, cur, int (length cur)) = (cs @ map chunk_of [], cur, int (length cur))"
    by simp
  with Nil show ?case by (intro exI[of _ "[]"] exI[of _ cur]) simp
next
  case (Cons w ws)
  show ?case
  proof (cases "int (length cur) + 1 \<ge> S")
    case True
    with Cons.prems have full: "int (length (cur @ [w])) = S" by simp
    from Cons.IH [of "[]" "cs @ [chunk_of (cur @ [w])]"] Cons.prems(1)
    obtain bs rest where
      run: "chunk_loop S ws (cs @ [chunk_of (cur @ [w])], [], 0)
              = ((cs @ [chunk_of (cur @ [w])]) @ map chunk_of bs, rest, int (length rest))"
      and blocks: "list_all (\<lambda>b. int (length b) = S) bs"
      and cat: "concat bs @ rest = ws" and short: "int (length rest) < S"
      by auto
    have eq: "int (length cur) + 1 = S" "1 + int (length cur) = S" using full by simp_all
    have "chunk_loop S (w # ws) (cs, cur, int (length cur))
            = chunk_loop S ws (cs @ [chunk_of (cur @ [w])], [], 0)"
      by (simp add: chunk_of_def eq)
    then have "chunk_loop S (w # ws) (cs, cur, int (length cur))
            = (cs @ map chunk_of ((cur @ [w]) # bs), rest, int (length rest))"
      using run by simp
    moreover have "list_all (\<lambda>b. int (length b) = S) ((cur @ [w]) # bs)"
      using blocks full by simp
    moreover have "concat ((cur @ [w]) # bs) @ rest = cur @ w # ws"
      using cat by simp
    ultimately show ?thesis using short by blast
  next
    case False
    then have room: "int (length (cur @ [w])) < S" by simp
    from Cons.IH [of "cur @ [w]" cs] Cons.prems(1) room
    obtain bs rest where
      run: "chunk_loop S ws (cs, cur @ [w], int (length (cur @ [w])))
              = (cs @ map chunk_of bs, rest, int (length rest))"
      and blocks: "list_all (\<lambda>b. int (length b) = S) bs"
      and cat: "concat bs @ rest = (cur @ [w]) @ ws" and short: "int (length rest) < S"
      by blast
    have "chunk_loop S (w # ws) (cs, cur, int (length cur))
            = (cs @ map chunk_of bs, rest, int (length rest))"
      using False run by (simp add: add.commute)
    then show ?thesis using blocks cat short by auto
  qed
qed

lemma chunkText_blocks:
  assumes "0 < S"
  shows "\<exists>bs rest. chunkText T S = map chunk_of (bs @ (if rest = [] then [] else [rest]))
           \<and> list_all (\<lambda>b. int (length b) = S) bs
           \<and> concat bs @ rest = splitIntoWords T \<and> int (length rest) < S"
proof -
  from chunk_loop_blocks [of S "[]" "splitIntoWords T" "[]"] assms
  obtain bs rest where
    run: "chunk_loop S (splitIntoWords T) ([], [], 0) = (map chunk_of bs, rest, int (length rest))"
    and blocks: "list_all (\<lambda>b. int (length b) = S) bs"
    and cat: "concat bs @ rest = splitIntoWords T" and short: "int (length rest) < S"
    by auto
  have "chunkText T S = map chunk_of (bs @ (if rest = [] then [] else [rest]))"
    by (simp add: chunkText_def run chunk_of_def)
  with blocks cat short show ?thesis by blast
qed

lemma isspace_space: "isspace CHR '' ''"
  by (simp add: isspace_def code_def)

lemma split_from_proper:
  "list_all (\<lambda>c. \<not> isspace c) cur \<Longrightarrow> list_all proper_word (split_from cur s)"
  by (induction s arbitrary: cur) (auto simp: proper_word_def)

lemma splitIntoWords_proper: "list_all proper_word (splitIntoWords s)"
  by (simp add: splitIntoWords_def split_from_proper)

lemma split_from_word:
  "list_all (\<lambda>c. \<not> isspace c) w \<Longrightarrow> split_from cur (w @ s) = split_from (cur @ w) s"
  by (induction w arbitrary: cur) auto

lemma split_from_spaced:
  "cur \<noteq> [] \<Longrightarrow> list_all proper_word ws \<Longrightarrow> split_from cur (spaced ws) = cur # ws"
proof (induction ws arbitrary: cur)
  case Nil
  then show ?case by (simp add: spaced_def)
next
  case (Cons w ws)
  from Cons.prems have w: "w \<noteq> []" "list_all (\<lambda>c. \<not> isspace c) w" and ws: "list_all proper_word ws"
    by (auto simp: proper_word_def list_all_iff)
  have "split_from cur (spaced (w # ws)) = cur # split_from [] (w @ spaced ws)"
    using Cons.prems(1) by (simp add: spaced_def isspace_space)
  also have "split_from [] (w @ spaced ws) = split_from w (spaced ws)"
    using split_from_word [OF w(2), of "[]"] by simp
  also have "\<dots> = w # ws" using Cons.IH [OF w(1) ws] .
  finally show ?case .
qed

lemma join_from_pos: "0 < i \<Longrightarrow> join_from i ws = spaced ws"
  by (induction ws arbitrary: i) (simp_all add: spaced_def)

lemma joinWords_Nil: "joinWords [] = []"
  by (simp add: joinWords_def)

lemma joinWords_Cons: "joinWords (w # ws) = w @ spaced ws"
  by (simp add: joinWords_def join_from_pos)

lemma joinWords_tl: "joinWords ws = tl (spaced ws)"
  by (cases ws) (simp_all add: joinWords_Nil joinWords_Cons spaced_def)

lemma spaced_nonempty: "ws \<noteq> [] \<Longrightarrow> spaced ws = CHR '' '' # joinWords ws"
  by (cases ws) (simp_all add: joinWords_Cons spaced_def)

lemma split_join:
  "list_all proper_word ws \<Longrightarrow> splitIntoWords (joinWords ws) = ws"
proof (cases ws)
  case Nil
  then show ?thesis by (simp add: joinWords_Nil splitIntoWords_def)
next
  case (Cons w rest)
  assume "list_all proper_word ws"
  with Cons have w: "w \<noteq> []" "list_all (\<lambda>c. \<not> isspace c) w" and r: "list_all proper_word rest"
    by (auto simp: proper_word_def list_all_iff)
  have "splitIntoWords (joinWords ws) = split_from [] (w @ spaced rest)"
    by (simp add: Cons joinWords_Cons splitIntoWords_def)
  also have "\<dots> = split_from w (spaced rest)"
    using split_from_word [OF w(2), of "[]"] by simp
  also have "\<dots> = w # rest" using split_from_spaced [OF w(1) r] .
  finally show ?thesis using Cons by simp
qed

lemma spaced_blocks:
  "list_all (\<lambda>b. b \<noteq> []) bs \<Longrightarrow> spaced (map joinWords bs) = spaced (concat bs)"
proof (induction bs)
  case Nil
  then show ?case by (simp add: spaced_def)
next
  case (Cons b bs)
  then have "spaced (map joinWords (b # bs)) = (CHR '' '' # joinWords b) @ spaced (concat bs)"
    by (simp add: spaced_def)
  also have "CHR '' '' # joinWords b = spaced b"
    using Cons.prems by (simp add: spaced_nonempty)
  finally show ?case by (simp add: spaced_def)
qed

lemma join_blocks:
  "list_all (\<lambda>b. b \<noteq> []) bs \<Longrightarrow> joinWords (map joinWords bs) = joinWords (concat bs)"
  by (simp add: joinWords_tl spaced_blocks)

lemma joinWords_nonempty: "list_all proper_word b \<Longrightarrow> b \<noteq> [] \<Longrightarrow> joinWords b \<noteq> []"
  by (cases b) (simp_all add: joinWords_Cons proper_word_def)

lemma chunkText_shape:
  assumes "0 < S"
  shows "\<exists>blocks. chunkText T S = map chunk_of blocks
           \<and> concat blocks = splitIntoWords T
           \<and> list_all (\<lambda>b. b \<noteq> [] \<and> int (length b) \<le> S \<and> list_all proper_word b) blocks
           \<and> list_all (\<lambda>b. int (length b) = S) (butlast blocks)"
proof -
  from chunkText_blocks [OF assms, of T]
  obtain bs rest where
    eq: "chunkText T S = map chunk_of (bs @ (if rest = [] then [] else [rest]))"
    and blocks: "list_all (\<lambda>b. int (length b) = S) bs"
    and cat: "concat bs @ rest = splitIntoWords T" and short: "int (length rest) < S"
    by blast
  let ?blocks = "bs @ (if rest = [] then [] else [rest])"
  have words: "list_all proper_word (concat bs @ rest)"
    using cat splitIntoWords_proper [of T] by simp
  have c: "concat ?blocks = splitIntoWords T" using cat by auto
  have full: "list_all (\<lambda>b. b \<noteq> [] \<and> int (length b) \<le> S \<and> list_all proper_word b) bs"
    using blocks words assms by (auto simp: list_all_iff)
  have last: "rest \<noteq> [] \<Longrightarrow> int (length rest) \<le> S \<and> list_all proper_word rest"
    using short words by simp
  have a: "list_all (\<lambda>b. b \<noteq> [] \<and> int (length b) \<le> S \<and> list_all proper_word b) ?blocks"
    using full last by simp
  have b: "list_all (\<lambda>b. int (length b) = S) (butlast ?blocks)"
    using blocks by (simp add: butlast_append list_all_iff) (meson in_set_butlastD)
  from eq c a b show ?thesis by blast
qed

lemma text_chunk_of: "text' (chunk_of b) = joinWords b"
  and count_chunk_of: "wordCount (chunk_of b) = int (length b)"
  by (simp_all add: chunk_of_def)

text \<open>
  C7, as the code has it. For a positive target size, the chunk texts joined with single
  spaces are the words of the text joined with single spaces, which is the text itself
  when the text is already written that way; and every chunk text splits into whole words
  of the text, the chunks' words in order being the words of the text.
\<close>

theorem chunkText_rejoins_words:
  assumes "0 < S"
  shows "joinWords (map text' (chunkText T S)) = joinWords (splitIntoWords T)
     \<and> concat (map (\<lambda>c. splitIntoWords (text' c)) (chunkText T S)) = splitIntoWords T
     \<and> (T = joinWords (splitIntoWords T) \<longrightarrow> joinWords (map text' (chunkText T S)) = T)"
proof -
  from chunkText_shape [OF assms, of T]
  obtain blocks where
    eq: "chunkText T S = map chunk_of blocks"
    and cat: "concat blocks = splitIntoWords T"
    and each: "list_all (\<lambda>b. b \<noteq> [] \<and> int (length b) \<le> S \<and> list_all proper_word b) blocks"
    by blast
  have texts: "map text' (chunkText T S) = map joinWords blocks"
    by (simp add: eq text_chunk_of)
  have ne: "list_all (\<lambda>b. b \<noteq> []) blocks"
    using each by (simp add: list_all_iff)
  have join: "joinWords (map text' (chunkText T S)) = joinWords (splitIntoWords T)"
    using join_blocks [OF ne] by (simp add: texts cat)
  have "map (\<lambda>c. splitIntoWords (text' c)) (chunkText T S) = blocks"
    using each by (simp add: eq text_chunk_of list_all_iff split_join map_idI)
  then have split: "concat (map (\<lambda>c. splitIntoWords (text' c)) (chunkText T S)) = splitIntoWords T"
    by (simp add: cat)
  from join split show ?thesis by simp
qed

text \<open>An instance: the text \<open>a b c\<close> in chunks of two words.\<close>

theorem chunkText_rejoins_words_witness:
  "(0::int) < 2
   \<and> joinWords (map text' (chunkText ''a b c'' 2)) = ''a b c''
   \<and> concat (map (\<lambda>c. splitIntoWords (text' c)) (chunkText ''a b c'' 2)) = [''a'', ''b'', ''c'']"
proof -
  have w: "splitIntoWords ''a b c'' = [''a'', ''b'', ''c'']"
    by (simp add: splitIntoWords_def isspace_def code_def)
  have j: "joinWords [''a'', ''b'', ''c''] = ''a b c''"
    by (simp add: joinWords_def)
  from chunkText_rejoins_words [of 2 "''a b c''"] w j show ?thesis by simp
qed

text \<open>
  C7 as stated fails on a text with two spaces between its words: the join of the chunks
  has one.
\<close>

theorem chunkText_rejoin_counterexample:
  "joinWords (map text' (chunkText ''a  b'' 5)) = ''a b''
   \<and> joinWords (map text' (chunkText ''a  b'' 5)) \<noteq> ''a  b''"
  by (simp add: chunkText_def splitIntoWords_def joinWords_def isspace_def code_def)

text \<open>
  C6. For a positive target size: every chunk but the last has \<open>wordCount\<close> equal to the
  target size; the last chunk has between one word and the target size; no chunk is
  empty, and \<open>wordCount\<close> is the number of words of the chunk's text; a text without words,
  the empty text among them, gives no chunk; a text of at least one and at most the
  target size of words gives exactly one chunk (the claim gives the empty sequence
  for the text without words).
\<close>

theorem chunkText_word_counts:
  assumes "0 < S"
  shows "list_all (\<lambda>c. wordCount c = S) (butlast (chunkText T S))
     \<and> (chunkText T S \<noteq> [] \<longrightarrow>
          1 \<le> wordCount (last (chunkText T S)) \<and> wordCount (last (chunkText T S)) \<le> S)
     \<and> list_all (\<lambda>c. text' c \<noteq> [] \<and> wordCount c = int (length (splitIntoWords (text' c))))
          (chunkText T S)
     \<and> (splitIntoWords T = [] \<longrightarrow> chunkText T S = [])
     \<and> chunkText [] S = []
     \<and> (1 \<le> length (splitIntoWords T) \<and> int (length (splitIntoWords T)) \<le> S \<longrightarrow>
          length (chunkText T S) = 1)"
proof -
  from chunkText_shape [OF assms, of T]
  obtain blocks where
    eq: "chunkText T S = map chunk_of blocks"
    and cat: "concat blocks = splitIntoWords T"
    and each: "list_all (\<lambda>b. b \<noteq> [] \<and> int (length b) \<le> S \<and> list_all proper_word b) blocks"
    and full: "list_all (\<lambda>b. int (length b) = S) (butlast blocks)"
    by blast
  have a: "list_all (\<lambda>c. wordCount c = S) (butlast (chunkText T S))"
    using full by (simp add: eq map_butlast [symmetric] list_all_iff count_chunk_of)
  have b: "chunkText T S \<noteq> [] \<longrightarrow>
          1 \<le> wordCount (last (chunkText T S)) \<and> wordCount (last (chunkText T S)) \<le> S"
  proof
    assume "chunkText T S \<noteq> []"
    then have ne: "blocks \<noteq> []" by (simp add: eq)
    then have "last blocks \<in> set blocks" by simp
    with each have "last blocks \<noteq> [] \<and> int (length (last blocks)) \<le> S"
      by (simp add: list_all_iff)
    moreover have "wordCount (last (chunkText T S)) = int (length (last blocks))"
      using ne by (simp add: eq last_map count_chunk_of)
    ultimately show "1 \<le> wordCount (last (chunkText T S)) \<and> wordCount (last (chunkText T S)) \<le> S"
      by (cases "last blocks") simp_all
  qed
  have c: "list_all (\<lambda>c. text' c \<noteq> [] \<and> wordCount c = int (length (splitIntoWords (text' c))))
          (chunkText T S)"
    using each
    by (simp add: eq list_all_iff text_chunk_of count_chunk_of split_join joinWords_nonempty)
  have d: "splitIntoWords T = [] \<longrightarrow> chunkText T S = []"
  proof
    assume "splitIntoWords T = []"
    with cat have "concat blocks = []" by simp
    with each have "blocks = []" by (cases blocks) (simp_all add: list_all_iff)
    then show "chunkText T S = []" by (simp add: eq)
  qed
  have e: "chunkText [] S = []"
    by (simp add: chunkText_def splitIntoWords_def)
  have f: "1 \<le> length (splitIntoWords T) \<and> int (length (splitIntoWords T)) \<le> S \<longrightarrow>
          length (chunkText T S) = 1"
  proof
    assume h: "1 \<le> length (splitIntoWords T) \<and> int (length (splitIntoWords T)) \<le> S"
    show "length (chunkText T S) = 1"
    proof (cases blocks)
      case Nil
      with cat h show ?thesis by simp
    next
      case (Cons b rest)
      show ?thesis
      proof (cases rest)
        case Nil
        with Cons show ?thesis by (simp add: eq)
      next
        case (Cons b' rest')
        with \<open>blocks = b # rest\<close> full have "int (length b) = S" by simp
        moreover from Cons \<open>blocks = b # rest\<close> each have "b' \<noteq> []" by simp
        ultimately have "S < int (length (concat blocks))"
          using Cons \<open>blocks = b # rest\<close> by (cases b') simp_all
        with cat h show ?thesis by simp
      qed
    qed
  qed
  from a b c d e f show ?thesis by blast
qed

text \<open>Instances with target size two: three words, no word, two words.\<close>

theorem chunkText_word_counts_witness:
  "(0::int) < 2
   \<and> chunkText ''a b c'' 2 = [\<lparr>text' = ''a b'', wordCount = 2\<rparr>, \<lparr>text' = ''c'', wordCount = 1\<rparr>]
   \<and> list_all (\<lambda>c. wordCount c = 2) (butlast (chunkText ''a b c'' 2))
   \<and> 1 \<le> wordCount (last (chunkText ''a b c'' 2))
   \<and> chunkText ''  '' 2 = []
   \<and> length (chunkText ''a b'' 2) = 1"
proof -
  have v: "chunkText ''a b c'' 2 = [\<lparr>text' = ''a b'', wordCount = 2\<rparr>, \<lparr>text' = ''c'', wordCount = 1\<rparr>]"
    by (simp add: chunkText_def splitIntoWords_def joinWords_def isspace_def code_def)
  have e: "splitIntoWords ''  '' = []" and w: "splitIntoWords ''a b'' = [''a'', ''b'']"
    by (simp_all add: splitIntoWords_def isspace_def code_def)
  from chunkText_word_counts [of 2 "''a b c''"] chunkText_word_counts [of 2 "''  ''"]
    chunkText_word_counts [of 2 "''a b''"] v e w
  show ?thesis by simp
qed

section \<open>Properties of the extraction\<close>

text \<open>
  C1, as the code has it. A request that fails (page count not positive, clamped start
  beyond the clamped end, or no text from the backend) returns a result with
  \<open>success\<close> false, a message that is not empty, and \<open>fullText\<close> and \<open>chunks\<close> empty.
  \<open>isChunked\<close> is never assigned and keeps what the storage of the local held.
  \<open>pageRange\<close> is likewise unassigned when the page count is not positive or the
  clamped range is empty; when the backend returns no text it holds the clamped range.
  \<^verbatim>\<open>extractText\<close> fails in the same way on a file that does not open or has no
  positive page count, and otherwise is \<^verbatim>\<open>extractTextFromPages\<close> on all pages.
\<close>

theorem failed_extraction_fields:
  "(getPageCount be p \<le> 0 \<or> min (getPageCount be p) b < max 1 a
      \<or> extractTextFromPDF be p (max 1 a) (min (getPageCount be p) b) = [] \<longrightarrow>
      (\<exists>r. extractTextFromPages be u p a b = Inr r
         \<and> \<not> success r \<and> errorMessage r \<noteq> [] \<and> fullText r = []
         \<and> ExtractionResult.chunks r = []
         \<and> ExtractionResult.isChunked r = ExtractionResult.isChunked u
         \<and> pageRange r =
             (if getPageCount be p \<le> 0 \<or> min (getPageCount be p) b < max 1 a
              then pageRange u
              else \<lparr>startPage = max 1 a, endPage = min (getPageCount be p) b,
                     totalPages = getPageCount be p\<rparr>)))
   \<and> (\<not> fileGood be p \<or> getPageCount be p \<le> 0 \<longrightarrow>
      (\<exists>r. extractText be u v p = Inr r
         \<and> \<not> success r \<and> errorMessage r \<noteq> [] \<and> fullText r = []
         \<and> ExtractionResult.chunks r = []
         \<and> ExtractionResult.isChunked r = ExtractionResult.isChunked u
         \<and> pageRange r = pageRange u))
   \<and> (fileGood be p \<and> 0 < getPageCount be p \<longrightarrow>
        extractText be u v p = extractTextFromPages be v p 1 (getPageCount be p))"
  by (auto simp: extractTextFromPages_def extractText_def local_result_def Let_def)

text \<open>Instances on a document of ten pages without text: pages 0 to 1000, and pages 5 to 3.\<close>

theorem failed_extraction_fields_witness:
  "extractTextFromPDF ten_blank_pages ''doc.pdf'' (max 1 0) (min (getPageCount ten_blank_pages ''doc.pdf'') 1000) = []
   \<and> (\<exists>r. extractTextFromPages ten_blank_pages blank_result ''doc.pdf'' 0 1000 = Inr r
         \<and> \<not> success r \<and> errorMessage r \<noteq> [] \<and> fullText r = []
         \<and> pageRange r = \<lparr>startPage = 1, endPage = 10, totalPages = 10\<rparr>)
   \<and> min (getPageCount ten_blank_pages ''doc.pdf'') 3 < max 1 5
   \<and> (\<exists>r. extractTextFromPages ten_blank_pages blank_result ''doc.pdf'' 5 3 = Inr r
         \<and> \<not> success r \<and> errorMessage r \<noteq> [] \<and> pageRange r = pageRange blank_result)"
proof -
  have none: "extractTextFromPDF ten_blank_pages ''doc.pdf'' (max 1 0)
                (min (getPageCount ten_blank_pages ''doc.pdf'') 1000) = []"
    and count: "getPageCount ten_blank_pages ''doc.pdf'' = 10"
    by (simp_all add: ten_blank_pages_def)
  from failed_extraction_fields [of ten_blank_pages "''doc.pdf''" 1000 0 blank_result blank_result]
    failed_extraction_fields [of ten_blank_pages "''doc.pdf''" 3 5 blank_result blank_result]
    none count
  show ?thesis by auto
qed

text \<open>
  C1 as stated fails: on a document of ten pages from which the backend extracts no text,
  the failed result carries the page range \<open>(1, 10, 10)\<close>, not the value the local was
  created with.
\<close>

theorem failed_extraction_pageRange_counterexample:
  "extractTextFromPages ten_blank_pages blank_result ''doc.pdf'' 0 1000 =
     Inr \<lparr>success = False,
          errorMessage = ''No text could be extracted from the specified pages'',
          fullText = [], ExtractionResult.chunks = [],
          pageRange = \<lparr>startPage = 1, endPage = 10, totalPages = 10\<rparr>,
          ExtractionResult.isChunked = False\<rparr>
   \<and> pageRange (local_result blank_result) = \<lparr>startPage = 0, endPage = 0, totalPages = 0\<rparr>
   \<and> \<lparr>startPage = 1, endPage = 10, totalPages = 10\<rparr>
        \<noteq> \<lparr>startPage = 0, endPage = 0, totalPages = (0::int)\<rparr>"
  by (simp add: extractTextFromPages_def ten_blank_pages_def blank_result_def local_result_def)

text \<open>
  A request that passes the checks and gets text from the backend goes through
  \<^verbatim>\<open>cleanTextForTTS\<close>, and its result is \<open>chunkingDecision\<close> of the local result
  with the cleaned text.
\<close>

lemma extraction_after_cleaning:
  assumes "0 < getPageCount be p" "max 1 a \<le> min (getPageCount be p) b"
    and "extractTextFromPDF be p (max 1 a) (min (getPageCount be p) b) \<noteq> []"
  shows "extractTextFromPages be u p a b =
     exn_map (\<lambda>cleaned. chunkingDecision ((local_result u)
          \<lparr>success := False,
           pageRange := \<lparr>startPage = max 1 a, endPage = min (getPageCount be p) b,
                          totalPages = getPageCount be p\<rparr>,
           fullText := cleaned\<rparr>))
       (cleanTextForTTS (extractTextFromPDF be p (max 1 a) (min (getPageCount be p) b)))"
proof -
  from assms(2) have inside: "\<not> min (getPageCount be p) b < max 1 a"
    by linarith
  from assms(1) have known: "\<not> getPageCount be p \<le> 0"
    by simp
  show ?thesis
    unfolding extractTextFromPages_def Let_def
    by (simp only: inside known assms(3) if_False)
qed

lemma splitIntoWords_replicate:
  "splitIntoWords (concat (replicate n ''a '')) = replicate n ''a''"
proof (induction n)
  case 0
  then show ?case by (simp add: splitIntoWords_def)
next
  case (Suc n)
  have "split_from [] (''a '' @ concat (replicate n ''a ''))
          = ''a'' # split_from [] (concat (replicate n ''a ''))"
    by (simp add: isspace_def code_def)
  with Suc show ?case by (simp add: splitIntoWords_def)
qed

lemma two_blocks:
  assumes cat: "length (concat blocks) = 10001"
    and each: "list_all (\<lambda>b. b \<noteq> [] \<and> int (length b) \<le> 10000 \<and> list_all proper_word b) blocks"
    and full: "list_all (\<lambda>b. int (length b) = 10000) (butlast blocks)"
  shows "map length blocks = [10000, 1]"
proof (cases blocks)
  case Nil
  with cat show ?thesis by simp
next
  case one: (Cons b1 rest1)
  show ?thesis
  proof (cases rest1)
    case Nil
    with one cat each show ?thesis by simp
  next
    case two: (Cons b2 rest2)
    with one full have l1: "length b1 = 10000" by simp
    show ?thesis
    proof (cases rest2)
      case Nil
      with one two cat l1 show ?thesis by simp
    next
      case (Cons b3 rest3)
      with one two full have "length b2 = 10000" by simp
      with one two cat l1 show ?thesis by simp
    qed
  qed
qed

text \<open>
  The decision itself, on a local result that holds a cleaned text: with exactly 10000
  words the result is a success with \<open>isChunked\<close> false and one chunk, the full text
  with word count 10000; with exactly 10001 words it is a success with \<open>isChunked\<close>
  true and two chunks, of 10000 words and of one word.
\<close>

lemma chunkingDecision_threshold:
  "(length (splitIntoWords t) = 10000 \<longrightarrow>
      success (chunkingDecision ((local_result u)\<lparr>success := False, pageRange := pr, fullText := t\<rparr>))
      \<and> \<not> ExtractionResult.isChunked
            (chunkingDecision ((local_result u)\<lparr>success := False, pageRange := pr, fullText := t\<rparr>))
      \<and> ExtractionResult.chunks
            (chunkingDecision ((local_result u)\<lparr>success := False, pageRange := pr, fullText := t\<rparr>))
          = [\<lparr>text' = t, wordCount = 10000\<rparr>]
      \<and> fullText (chunkingDecision ((local_result u)\<lparr>success := False, pageRange := pr, fullText := t\<rparr>)) = t)
   \<and> (length (splitIntoWords t) = 10001 \<longrightarrow>
      success (chunkingDecision ((local_result u)\<lparr>success := False, pageRange := pr, fullText := t\<rparr>))
      \<and> ExtractionResult.isChunked
            (chunkingDecision ((local_result u)\<lparr>success := False, pageRange := pr, fullText := t\<rparr>))
      \<and> map wordCount (ExtractionResult.chunks
            (chunkingDecision ((local_result u)\<lparr>success := False, pageRange := pr, fullText := t\<rparr>)))
          = [10000, 1]
      \<and> fullText (chunkingDecision ((local_result u)\<lparr>success := False, pageRange := pr, fullText := t\<rparr>)) = t)"
proof -
  have small: "length (splitIntoWords t) = 10000 \<Longrightarrow>
      chunkingDecision ((local_result u)\<lparr>success := False, pageRange := pr, fullText := t\<rparr>)
        = (local_result u)\<lparr>success := True, pageRange := pr, fullText := t,
             ExtractionResult.isChunked := False,
             ExtractionResult.chunks := [\<lparr>text' = t, wordCount = 10000\<rparr>]\<rparr>"
    by (simp add: chunkingDecision_def local_result_def Let_def)
  have large: "length (splitIntoWords t) = 10001 \<Longrightarrow>
      chunkingDecision ((local_result u)\<lparr>success := False, pageRange := pr, fullText := t\<rparr>)
        = (local_result u)\<lparr>success := True, pageRange := pr, fullText := t,
             ExtractionResult.isChunked := True,
             ExtractionResult.chunks := chunkText t 10000\<rparr>"
    by (simp add: chunkingDecision_def local_result_def Let_def)
  have counts: "map wordCount (chunkText t 10000) = [10000, 1]"
    if n: "length (splitIntoWords t) = 10001"
  proof -
    from chunkText_shape [of 10000 t]
    obtain blocks where
      eq: "chunkText t 10000 = map chunk_of blocks"
      and cat: "concat blocks = splitIntoWords t"
      and each: "list_all (\<lambda>b. b \<noteq> [] \<and> int (length b) \<le> 10000 \<and> list_all proper_word b) blocks"
      and full: "list_all (\<lambda>b. int (length b) = 10000) (butlast blocks)"
      by auto
    from cat n have "length (concat blocks) = 10001" by simp
    from two_blocks [OF this each full] have "map length blocks = [10000, 1]" .
    then have "map (\<lambda>b. int (length b)) blocks = [10000, 1]"
      by (cases blocks) auto
    then show ?thesis by (simp add: eq count_chunk_of comp_def)
  qed
  show ?thesis using small large counts by simp
qed

text \<open>
  No request reaches that decision: a request that passes the checks and gets text from
  the backend calls \<^verbatim>\<open>cleanTextForTTS\<close> first, which throws, and nothing between
  the call and the caller catches the exception.
\<close>

lemma extraction_with_text_throws:
  assumes "0 < getPageCount be p" "max 1 a \<le> min (getPageCount be p) b"
    and "extractTextFromPDF be p (max 1 a) (min (getPageCount be p) b) \<noteq> []"
  shows "extractTextFromPages be u p a b = Inl regex_error"
  by (simp add: extraction_after_cleaning [OF assms] cleanTextForTTS_throws exn_map_def)

lemma words_text_nonempty: "0 < n \<Longrightarrow> concat (replicate n ''a '') \<noteq> []"
  by (cases n) simp_all

text \<open>
  C5. The claim is that a document whose text has exactly 10000 words is extracted with
  \<open>isChunked\<close> false and one chunk, and one of exactly 10001 words with \<open>isChunked\<close> true
  and chunks of 10000 words and of one word. The code returns no result for either
  document: on a document of one page whose text is 10000, or 10001, times the word
  \<open>a\<close>, both \<^verbatim>\<open>extractTextFromPages\<close> and \<^verbatim>\<open>extractText\<close> throw
  \<^verbatim>\<open>std::regex_error\<close>, out of \<^verbatim>\<open>cleanTextForTTS\<close>, before the words are
  counted.
\<close>

theorem extraction_of_10000_words_throws:
  "length (splitIntoWords (extractTextFromPDF (words_document 10000) ''doc.pdf'' 1 1)) = 10000
   \<and> extractTextFromPages (words_document 10000) blank_result ''doc.pdf'' 1 1 = Inl regex_error
   \<and> extractText (words_document 10000) blank_result blank_result ''doc.pdf'' = Inl regex_error
   \<and> length (splitIntoWords (extractTextFromPDF (words_document 10001) ''doc.pdf'' 1 1)) = 10001
   \<and> extractTextFromPages (words_document 10001) blank_result ''doc.pdf'' 1 1 = Inl regex_error
   \<and> extractText (words_document 10001) blank_result blank_result ''doc.pdf'' = Inl regex_error"
proof -
  have pages: "\<And>n. getPageCount (words_document n) ''doc.pdf'' = 1"
    and opens: "\<And>n. fileGood (words_document n) ''doc.pdf''"
    and words: "\<And>n x y. extractTextFromPDF (words_document n) ''doc.pdf'' x y
                  = concat (replicate n ''a '')"
    by (simp_all add: words_document_def)
  have counted: "\<And>n. length (splitIntoWords (extractTextFromPDF (words_document n) ''doc.pdf'' 1 1)) = n"
    by (simp only: words splitIntoWords_replicate length_replicate)
  have thrown: "extractTextFromPages (words_document n) blank_result ''doc.pdf'' 1 1 = Inl regex_error"
    if "0 < n" for n
  proof (rule extraction_with_text_throws)
    show "0 < getPageCount (words_document n) ''doc.pdf''"
      by (simp add: pages)
    show "max 1 1 \<le> min (getPageCount (words_document n) ''doc.pdf'') (1::int)"
      by (simp add: pages)
    show "extractTextFromPDF (words_document n) ''doc.pdf'' (max 1 1)
            (min (getPageCount (words_document n) ''doc.pdf'') 1) \<noteq> []"
      using that by (simp only: words words_text_nonempty not_False_eq_True)
  qed
  have whole: "extractText (words_document n) blank_result blank_result ''doc.pdf'' = Inl regex_error"
    if "0 < n" for n
    using thrown [OF that] by (simp add: extractText_def pages opens)
  have a: "(0::nat) < 10000" and b: "(0::nat) < 10001" by simp_all
  from counted [of 10000] counted [of 10001] thrown [OF a] thrown [OF b] whole [OF a] whole [OF b]
  show ?thesis by blast
qed

section \<open>Properties of the playback controller\<close>

lemma invoke_fields:
  "state (invoke b cb s) = state s"
  "chunks (invoke b cb s) = chunks s"
  "currentChunk (invoke b cb s) = currentChunk s"
  "isChunked (invoke b cb s) = isChunked s"
  "progress (invoke b cb s) = progress s"
  "currentWordIndex (invoke b cb s) = currentWordIndex s"
  "totalWords (invoke b cb s) = totalWords s"
  "settings (invoke b cb s) = settings s"
  "speechStartedCallback (invoke b cb s) = speechStartedCallback s"
  "speechFinishedCallback (invoke b cb s) = speechFinishedCallback s"
  by (simp_all add: invoke_def)

text \<open>
  C10. \<^verbatim>\<open>setVoice\<close> writes the requested identifier into the stored settings before
  it asks the platform, and the platform call writes no member: whatever the platform
  answers, \<^verbatim>\<open>getSettings()\<close> afterwards returns the old settings with \<open>voiceId\<close>
  equal to the requested identifier, and the result of \<^verbatim>\<open>setVoice\<close> is the
  platform's answer.
\<close>

theorem setVoice_stores_voiceId:
  "getSettings (snd (setVoice be v s)) = (getSettings s)\<lparr>voiceId := v\<rparr>
   \<and> voiceId (getSettings (snd (setVoice be v s))) = v
   \<and> fst (setVoice be v s) = setVoicePlatform be v"
  by (simp add: setVoice_def getSettings_def Let_def)

text \<open>
  C4, as the code has it. When the state becomes \<open>Stopped\<close>, by \<^verbatim>\<open>stop()\<close> from
  another state or by the last \<^verbatim>\<open>onSpeechFinished()\<close>, the chunk sequence is
  emptied, the chunk index is set to zero and the chunked flag is cleared. The progress,
  the word index and the word total are not written: they keep the values of the last
  progress event.
\<close>

theorem stopped_clears_chunks_not_progress:
  "(state s \<noteq> Stopped \<longrightarrow>
      state (stop s) = Stopped \<and> chunks (stop s) = [] \<and> currentChunk (stop s) = 0
      \<and> \<not> isChunked (stop s)
      \<and> progress (stop s) = progress s
      \<and> currentWordIndex (stop s) = currentWordIndex s
      \<and> totalWords (stop s) = totalWords s)
   \<and> (\<not> (isChunked s \<and> size_t (currentChunk s) < size_t (int (length (chunks s)) - 1)) \<longrightarrow>
      (\<exists>s'. onSpeechFinished be s = Inr s'
        \<and> state s' = Stopped \<and> chunks s' = [] \<and> currentChunk s' = 0 \<and> \<not> isChunked s'
        \<and> progress s' = progress s
        \<and> currentWordIndex s' = currentWordIndex s
        \<and> totalWords s' = totalWords s))"
  by (simp add: stop_def onSpeechFinished_def invoke_fields)

text \<open>An instance: a controller that speaks and has received the progress event \<open>(1/2, 3, 10)\<close>.\<close>

theorem stopped_clears_chunks_not_progress_witness:
  "state (onProgress (1 / 2) 3 10 (onSpeechStarted initial)) \<noteq> Stopped
   \<and> \<not> isChunked (onProgress (1 / 2) 3 10 (onSpeechStarted initial))
   \<and> state (stop (onProgress (1 / 2) 3 10 (onSpeechStarted initial))) = Stopped
   \<and> chunks (stop (onProgress (1 / 2) 3 10 (onSpeechStarted initial))) = []
   \<and> progress (stop (onProgress (1 / 2) 3 10 (onSpeechStarted initial))) = 1 / 2
   \<and> (\<exists>s'. onSpeechFinished accepting_engine
              (onProgress (1 / 2) 3 10 (onSpeechStarted initial)) = Inr s'
        \<and> state s' = Stopped \<and> totalWords s' = 10)"
proof -
  let ?s = "onProgress (1 / 2) 3 10 (onSpeechStarted initial)"
  have running: "state ?s \<noteq> Stopped"
    by (simp add: onProgress_def onSpeechStarted_def initial_def invoke_def)
  have single: "\<not> isChunked ?s"
    by (simp add: onProgress_def onSpeechStarted_def initial_def invoke_def)
  have p: "progress ?s = 1 / 2" and t: "totalWords ?s = 10"
    by (simp_all add: onProgress_def onSpeechStarted_def initial_def invoke_def)
  from stopped_clears_chunks_not_progress [of ?s accepting_engine] running single p t
  show ?thesis by auto
qed

text \<open>
  C4 as stated fails: a controller that was speaking and received the progress event
  \<open>(1/2, 3, 10)\<close> is stopped, and its progress, word index and word total are not zero.
\<close>

theorem stop_keeps_progress_counterexample:
  "state (stop (onProgress (1 / 2) 3 10 (onSpeechStarted initial))) = Stopped
   \<and> progress (stop (onProgress (1 / 2) 3 10 (onSpeechStarted initial))) \<noteq> 0
   \<and> currentWordIndex (stop (onProgress (1 / 2) 3 10 (onSpeechStarted initial))) \<noteq> 0
   \<and> totalWords (stop (onProgress (1 / 2) 3 10 (onSpeechStarted initial))) \<noteq> 0"
  by (simp add: stop_def onProgress_def onSpeechStarted_def initial_def invoke_def)

lemma speech_clean_total: "\<exists>cleaned. speech_cleanTextForTTS c = Inr cleaned"
proof -
  obtain c1 where c1: "regex_replace c (raw ''[/x00-/x08/x0B/x0C/x0E-/x1F/x7F]'') [] = Inr c1"
    using regex_replace_compiled [OF control_class_compiles] by blast
  obtain c2 where c2: "regex_replace c1 (raw ''/s{2,}'') '' '' = Inr c2"
    using regex_replace_compiled [OF space_run_compiles] by blast
  show ?thesis
    unfolding speech_cleanTextForTTS_def
    by (simp only: c1 c2 exn_bind_def sum.case) blast
qed

lemma speak_accepted: "accepts be c \<Longrightarrow> speak be c s = Inr (True, onSpeechStarted s)"
  by (auto simp: accepts_def speak_def exn_bind_def split: sum.splits)

lemma speak_rejected: "\<not> accepts be c \<Longrightarrow> speak be c s = Inr (False, s)"
  using speech_clean_total [of c]
  by (auto simp: accepts_def speak_def exn_bind_def split: sum.splits)

lemma size_t_small: "0 \<le> k \<Longrightarrow> k < 2 ^ 64 \<Longrightarrow> size_t k = k"
  by (simp add: size_t_def)

lemma size_t_le: "0 \<le> k \<Longrightarrow> size_t k \<le> k"
  by (simp add: size_t_def zmod_le_nonneg_dividend)

lemma onSpeechStarted_fields:
  "state (onSpeechStarted s) = Speaking"
  "chunks (onSpeechStarted s) = chunks s"
  "currentChunk (onSpeechStarted s) = currentChunk s"
  "isChunked (onSpeechStarted s) = isChunked s"
  "progress (onSpeechStarted s) = progress s"
  "currentWordIndex (onSpeechStarted s) = currentWordIndex s"
  "totalWords (onSpeechStarted s) = totalWords s"
  "speechStartedCallback (onSpeechStarted s) = speechStartedCallback s"
  "speechFinishedCallback (onSpeechStarted s) = speechFinishedCallback s"
  "invoked (onSpeechStarted s) =
     invoked s @ (if speechStartedCallback s then [SpeechStarted] else [])"
  by (simp_all add: onSpeechStarted_def invoke_def)

lemma speakChunked_start:
  assumes "cs \<noteq> []" "0 \<le> k" "k < int (length cs)" "accepts be (cs ! nat k)"
  shows "speakChunked be cs k s =
     Inr (True, onSpeechStarted (s\<lparr>chunks := cs, currentChunk := k, isChunked := True\<rparr>))"
proof -
  from assms have guard: "size_t k < int (length cs)"
    using size_t_le [of k] by simp
  then show ?thesis
    using assms(1,4)
    by (simp add: speakChunked_def speakCurrentChunk_def speak_accepted)
qed

text \<open>
  C9. \<^verbatim>\<open>speakChunked\<close> with chunks and a start index in range stores the chunks,
  the index and the chunked flag, and then speaks the chunk at the index. When that chunk
  is not started (it is empty, or empty once cleaned, or the platform refuses it) the
  result is false and the controller holds the stored chunks, index and flag; nothing is
  rolled back.
\<close>

theorem speakChunked_stores_before_speaking:
  assumes "cs \<noteq> []" "0 \<le> startChunk" "startChunk < int (length cs)"
  shows "speakChunked be cs startChunk s =
     (if accepts be (cs ! nat startChunk)
      then Inr (True, onSpeechStarted
                 (s\<lparr>chunks := cs, currentChunk := startChunk, isChunked := True\<rparr>))
      else Inr (False, s\<lparr>chunks := cs, currentChunk := startChunk, isChunked := True\<rparr>))"
proof -
  from assms have guard: "size_t startChunk < int (length cs)"
    using size_t_le [of startChunk] by simp
  then show ?thesis
    using assms(1)
    by (simp add: speakChunked_def speakCurrentChunk_def speak_accepted speak_rejected)
qed

lemma blank_rejected: "\<not> accepts accepting_engine ''   ''"
  by (simp add: accepts_def speech_cleanTextForTTS_def rx_eval match_eval)

lemma word_accepted:
  "accepts accepting_engine ''one''" "accepts accepting_engine ''two  2''"
  "accepts accepting_engine ''three''"
  by (simp_all add: accepts_def speech_cleanTextForTTS_def rx_eval match_eval accepting_engine_def)

text \<open>An instance: the first chunk is three spaces, which the cleaning empties.\<close>

theorem speakChunked_stores_before_speaking_witness:
  "[''   '', ''one''] \<noteq> [] \<and> (0::int) \<le> 0 \<and> 0 < int (length [''   '', ''one''])
   \<and> \<not> accepts accepting_engine ([''   '', ''one''] ! nat 0)
   \<and> speakChunked accepting_engine [''   '', ''one''] 0 initial =
       Inr (False, initial\<lparr>chunks := [''   '', ''one''], currentChunk := 0, isChunked := True\<rparr>)
   \<and> initial\<lparr>chunks := [''   '', ''one''], currentChunk := 0, isChunked := True\<rparr> \<noteq> initial"
proof -
  have r: "\<not> accepts accepting_engine ([''   '', ''one''] ! nat 0)"
    using blank_rejected by simp
  have d: "initial\<lparr>chunks := [''   '', ''one''], currentChunk := 0, isChunked := True\<rparr> \<noteq> initial"
    by (simp add: initial_def)
  from speakChunked_stores_before_speaking [of "[''   '', ''one'']" 0 accepting_engine initial] r d
  show ?thesis by simp
qed

lemma finished_advances:
  assumes "isChunked s" "0 \<le> currentChunk s"
    and "currentChunk s + 1 < int (length (chunks s))" "int (length (chunks s)) < 2 ^ 64"
    and "accepts be (chunks s ! nat (currentChunk s + 1))"
  shows "onSpeechFinished be s = Inr (onSpeechStarted (s\<lparr>currentChunk := currentChunk s + 1\<rparr>))"
proof -
  have a: "size_t (currentChunk s) = currentChunk s"
    and b: "size_t (int (length (chunks s)) - 1) = int (length (chunks s)) - 1"
    and c: "size_t (currentChunk s + 1) = currentChunk s + 1"
    using assms(2-4) by (auto intro!: size_t_small)
  have "speakCurrentChunk be (s\<lparr>currentChunk := currentChunk s + 1\<rparr>)
          = Inr (True, onSpeechStarted (s\<lparr>currentChunk := currentChunk s + 1\<rparr>))"
    using assms(1,3,5) c by (simp add: speakCurrentChunk_def speak_accepted)
  then show ?thesis
    using assms(1,3) a b by (simp add: onSpeechFinished_def exn_map_def)
qed

lemma finished_last:
  assumes "0 \<le> currentChunk s" "currentChunk s + 1 = int (length (chunks s))"
    and "int (length (chunks s)) < 2 ^ 64"
  shows "onSpeechFinished be s =
     Inr (invoke (speechFinishedCallback s) SpeechFinished
       (s\<lparr>state := Stopped, isChunked := False, chunks := [], currentChunk := 0\<rparr>))"
proof -
  have e: "int (length (chunks s)) - 1 = currentChunk s"
    using assms(2) by simp
  have "currentChunk s < 2 ^ 64"
    using assms(2,3) by simp
  with assms(1) have "size_t (currentChunk s) = currentChunk s"
    by (rule size_t_small)
  then show ?thesis by (simp add: onSpeechFinished_def e)
qed

text \<open>
  C8, as the code has it. From any state of the controller, so from \<open>Stopped\<close>,
  \<^verbatim>\<open>speakChunked\<close> with
  three chunks that are each accepted, at index 0, returns true and speaks; the first and
  the second completion event advance the index to 1 and to 2, the state stays
  \<open>Speaking\<close> and the only callback invoked up to there is the start callback (once
  per utterance started, when it is set); the third completion event invokes the
  finished callback, once (when it is set), and leaves the state \<open>Stopped\<close>, no chunks,
  index 0 and the chunked flag cleared. The progress, the word index and the word total
  are not written by the run: they are what they were before it, zero on a controller
  that never received a progress event.
\<close>

theorem three_chunks_play_through:
  assumes "accepts be c0" "accepts be c1" "accepts be c2"
  shows "\<exists>s1 s2 s3 s4.
      speakChunked be [c0, c1, c2] 0 s = Inr (True, s1)
    \<and> onSpeechFinished be s1 = Inr s2
    \<and> onSpeechFinished be s2 = Inr s3
    \<and> onSpeechFinished be s3 = Inr s4
    \<and> run_three be [c0, c1, c2] s = Inr s4
    \<and> state s1 = Speaking \<and> currentChunk s1 = 0
    \<and> state s2 = Speaking \<and> currentChunk s2 = 1
    \<and> state s3 = Speaking \<and> currentChunk s3 = 2
    \<and> invoked s3 = invoked s
         @ (if speechStartedCallback s then [SpeechStarted, SpeechStarted, SpeechStarted] else [])
    \<and> invoked s4 = invoked s3 @ (if speechFinishedCallback s then [SpeechFinished] else [])
    \<and> state s4 = Stopped \<and> chunks s4 = [] \<and> currentChunk s4 = 0 \<and> \<not> isChunked s4
    \<and> progress s4 = progress s \<and> currentWordIndex s4 = currentWordIndex s
    \<and> totalWords s4 = totalWords s"
proof -
  let ?t0 = "s\<lparr>chunks := [c0, c1, c2], currentChunk := 0, isChunked := True\<rparr>"
  let ?s1 = "onSpeechStarted ?t0"
  let ?s2 = "onSpeechStarted (?s1\<lparr>currentChunk := currentChunk ?s1 + 1\<rparr>)"
  let ?s3 = "onSpeechStarted (?s2\<lparr>currentChunk := currentChunk ?s2 + 1\<rparr>)"
  let ?s4 = "invoke (speechFinishedCallback ?s3) SpeechFinished
       (?s3\<lparr>state := Stopped, isChunked := False, chunks := [], currentChunk := 0\<rparr>)"
  have start: "speakChunked be [c0, c1, c2] 0 s = Inr (True, ?s1)"
    using speakChunked_start [of "[c0, c1, c2]" 0 be s] assms(1) by simp
  have f1: "onSpeechFinished be ?s1 = Inr ?s2"
    by (rule finished_advances) (simp_all add: onSpeechStarted_fields assms)
  have f2: "onSpeechFinished be ?s2 = Inr ?s3"
    by (rule finished_advances) (simp_all add: onSpeechStarted_fields assms)
  have f3: "onSpeechFinished be ?s3 = Inr ?s4"
    by (rule finished_last) (simp_all add: onSpeechStarted_fields)
  have props:
    "state ?s1 = Speaking \<and> currentChunk ?s1 = 0
    \<and> state ?s2 = Speaking \<and> currentChunk ?s2 = 1
    \<and> state ?s3 = Speaking \<and> currentChunk ?s3 = 2
    \<and> invoked ?s3 = invoked s
         @ (if speechStartedCallback s then [SpeechStarted, SpeechStarted, SpeechStarted] else [])
    \<and> invoked ?s4 = invoked ?s3 @ (if speechFinishedCallback s then [SpeechFinished] else [])
    \<and> state ?s4 = Stopped \<and> chunks ?s4 = [] \<and> currentChunk ?s4 = 0 \<and> \<not> isChunked ?s4
    \<and> progress ?s4 = progress s \<and> currentWordIndex ?s4 = currentWordIndex s
    \<and> totalWords ?s4 = totalWords s"
    by (simp add: onSpeechStarted_fields invoke_fields invoke_def)
  have run: "run_three be [c0, c1, c2] s = Inr ?s4"
    by (simp add: run_three_def exn_bind_def start f1 f2 f3)
  from start f1 f2 f3 run props show ?thesis by blast
qed


text \<open>An instance: a fresh controller with the start and the finished callback set, and three chunks.\<close>

theorem three_chunks_play_through_witness:
  "accepts accepting_engine ''one'' \<and> accepts accepting_engine ''two  2''
   \<and> accepts accepting_engine ''three''
   \<and> state initial = Stopped
   \<and> (\<exists>s1 s2 s3 s4.
        speakChunked accepting_engine [''one'', ''two  2'', ''three''] 0
          (initial\<lparr>speechStartedCallback := True, speechFinishedCallback := True\<rparr>)
          = Inr (True, s1)
      \<and> onSpeechFinished accepting_engine s1 = Inr s2
      \<and> onSpeechFinished accepting_engine s2 = Inr s3
      \<and> onSpeechFinished accepting_engine s3 = Inr s4
      \<and> invoked s3 = [SpeechStarted, SpeechStarted, SpeechStarted]
      \<and> invoked s4 = [SpeechStarted, SpeechStarted, SpeechStarted, SpeechFinished]
      \<and> state s4 = Stopped \<and> chunks s4 = [] \<and> currentChunk s4 = 0 \<and> \<not> isChunked s4
      \<and> progress s4 = 0 \<and> currentWordIndex s4 = 0 \<and> totalWords s4 = 0)"
proof -
  let ?s = "initial\<lparr>speechStartedCallback := True, speechFinishedCallback := True\<rparr>"
  from three_chunks_play_through [OF word_accepted, of ?s]
  obtain s1 s2 s3 s4 where
    run: "speakChunked accepting_engine [''one'', ''two  2'', ''three''] 0 ?s = Inr (True, s1)"
      "onSpeechFinished accepting_engine s1 = Inr s2"
      "onSpeechFinished accepting_engine s2 = Inr s3"
      "onSpeechFinished accepting_engine s3 = Inr s4"
    and calls: "invoked s3 = invoked ?s
         @ (if speechStartedCallback ?s then [SpeechStarted, SpeechStarted, SpeechStarted] else [])"
      "invoked s4 = invoked s3 @ (if speechFinishedCallback ?s then [SpeechFinished] else [])"
    and final: "state s4 = Stopped" "chunks s4 = []" "currentChunk s4 = 0" "\<not> isChunked s4"
      "progress s4 = progress ?s" "currentWordIndex s4 = currentWordIndex ?s"
      "totalWords s4 = totalWords ?s"
    by blast
  have "invoked s3 = [SpeechStarted, SpeechStarted, SpeechStarted]"
    and "invoked s4 = [SpeechStarted, SpeechStarted, SpeechStarted, SpeechFinished]"
    and "progress s4 = 0" and "currentWordIndex s4 = 0" and "totalWords s4 = 0"
    using calls final by (simp_all add: initial_def)
  moreover have "state initial = Stopped" by (simp add: initial_def)
  ultimately show ?thesis using run final word_accepted by blast
qed

text \<open>
  C8 as stated fails on the last point. The session state counts the progress, the word
  index and the word total, and the run does not empty them: from the \<open>Stopped\<close> state
  of a controller that spoke, received the progress event \<open>(1/2, 3, 10)\<close> and was
  stopped, the run over three chunks ends in \<open>Stopped\<close> with no chunks, and with
  progress 1/2, word index 3 and word total 10.
\<close>

theorem three_chunks_keep_progress_counterexample:
  "state (stop (onProgress (1 / 2) 3 10 (onSpeechStarted initial))) = Stopped
   \<and> exn_map state (run_three accepting_engine [''one'', ''two  2'', ''three'']
        (stop (onProgress (1 / 2) 3 10 (onSpeechStarted initial)))) = Inr Stopped
   \<and> exn_map chunks (run_three accepting_engine [''one'', ''two  2'', ''three'']
        (stop (onProgress (1 / 2) 3 10 (onSpeechStarted initial)))) = Inr []
   \<and> exn_map progress (run_three accepting_engine [''one'', ''two  2'', ''three'']
        (stop (onProgress (1 / 2) 3 10 (onSpeechStarted initial)))) = Inr (1 / 2)
   \<and> exn_map currentWordIndex (run_three accepting_engine [''one'', ''two  2'', ''three'']
        (stop (onProgress (1 / 2) 3 10 (onSpeechStarted initial)))) = Inr 3
   \<and> exn_map totalWords (run_three accepting_engine [''one'', ''two  2'', ''three'']
        (stop (onProgress (1 / 2) 3 10 (onSpeechStarted initial)))) = Inr 10
   \<and> (1 / 2 :: real) \<noteq> 0"
proof -
  let ?s = "stop (onProgress (1 / 2) 3 10 (onSpeechStarted initial))"
  let ?cs = "[''one'', ''two  2'', ''three'']"
  let ?t0 = "?s\<lparr>chunks := ?cs, currentChunk := 0, isChunked := True\<rparr>"
  let ?s1 = "onSpeechStarted ?t0"
  let ?s2 = "onSpeechStarted (?s1\<lparr>currentChunk := currentChunk ?s1 + 1\<rparr>)"
  let ?s3 = "onSpeechStarted (?s2\<lparr>currentChunk := currentChunk ?s2 + 1\<rparr>)"
  let ?s4 = "invoke (speechFinishedCallback ?s3) SpeechFinished
       (?s3\<lparr>state := Stopped, isChunked := False, chunks := [], currentChunk := 0\<rparr>)"
  have start: "speakChunked accepting_engine ?cs 0 ?s = Inr (True, ?s1)"
    using speakChunked_start [of ?cs 0 accepting_engine ?s] word_accepted(1) by simp
  have f1: "onSpeechFinished accepting_engine ?s1 = Inr ?s2"
    by (rule finished_advances) (simp_all add: onSpeechStarted_fields word_accepted)
  have f2: "onSpeechFinished accepting_engine ?s2 = Inr ?s3"
    by (rule finished_advances) (simp_all add: onSpeechStarted_fields word_accepted)
  have f3: "onSpeechFinished accepting_engine ?s3 = Inr ?s4"
    by (rule finished_last) (simp_all add: onSpeechStarted_fields)
  have run: "run_three accepting_engine ?cs ?s = Inr ?s4"
    by (simp add: run_three_def exn_bind_def start f1 f2 f3)
  have before: "state ?s = Stopped" "progress ?s = 1 / 2" "currentWordIndex ?s = 3"
    "totalWords ?s = 10"
    by (simp_all add: stop_def onProgress_def onSpeechStarted_def initial_def invoke_def)
  have after: "state ?s4 = Stopped" "chunks ?s4 = []" "progress ?s4 = progress ?s"
    "currentWordIndex ?s4 = currentWordIndex ?s" "totalWords ?s4 = totalWords ?s"
    by (simp_all add: onSpeechStarted_fields invoke_fields)
  show ?thesis
    by (simp add: run exn_map_def before after)
qed

end
